theory Spec2Isabelle
  imports Complex_Main "HOL-Library.Word"
begin

section \<open>Path normaliser\<close>

text \<open>
  Go strings are byte sequences; the two transforms below only look at the ASCII bytes
  \<open>[\<close>, \<open>]\<close>, \<open>.\<close> and the decimal digits, so the byte-level model on
  \<^typ>\<open>string\<close> is exact.
\<close>

definition isDigit :: "char \<Rightarrow> bool" where
  "isDigit c = (c \<in> set ''0123456789'')"

definition notDot :: "char \<Rightarrow> bool" where
  "notDot c = (c \<noteq> CHR ''.'')"

text \<open>
  \<open>convertBracketIndexesToDotIndexes\<close>: \<open>regexp.MustCompile("\\[(\\d+)\\]([^\\.]+)")\<close>
  with \<open>ReplaceAllString(path, "$2.$1")\<close>. The scan is left to right; at an opening bracket
  the pattern matches when one or more digits, a closing bracket and one or more non-dot
  bytes follow (both repetitions are greedy and admit no shorter alternative); the match is
  replaced by the key, a dot and the digits, and the scan resumes after the match. A byte
  at which no match starts is copied.
\<close>

function convertBracketIndexesToDotIndexes :: "string \<Rightarrow> string" where
  "convertBracketIndexesToDotIndexes [] = []"
| "convertBracketIndexesToDotIndexes (c # cs) =
     (if c = CHR ''['' then
        (let ds = takeWhile isDigit cs; r = dropWhile isDigit cs in
         (case r of
            [] \<Rightarrow> c # convertBracketIndexesToDotIndexes cs
          | b # r' \<Rightarrow>
              if b = CHR '']'' \<and> ds \<noteq> [] \<and> takeWhile notDot r' \<noteq> []
              then takeWhile notDot r' @ ''.'' @ ds
                     @ convertBracketIndexesToDotIndexes (dropWhile notDot r')
              else c # convertBracketIndexesToDotIndexes cs))
      else c # convertBracketIndexesToDotIndexes cs)"
  by pat_completeness auto
termination
proof (relation "measure length", goal_cases)
  case 1
  show ?case by simp
next
  case (2 c cs ds r)
  then show ?case by simp
next
  case (3 c cs ds r b r')
  have a: "length (dropWhile notDot r') \<le> length r'"
    by (rule length_dropWhile_le)
  have "length (b # r') \<le> length cs"
    using 3 length_dropWhile_le [of isDigit cs] by simp
  then have "length r' < length cs" by simp
  with a show ?case by simp
next
  case (4 c cs ds r b r')
  then show ?case by simp
next
  case (5 c cs)
  then show ?case by simp
qed

text \<open>\<open>strings.Replace(s, "[]", "", -1)\<close>: every non-overlapping \<open>[]\<close>, left to right.\<close>

fun removeArrayMarkers :: "string \<Rightarrow> string" where
  "removeArrayMarkers (c # d # cs) =
     (if c = CHR ''['' \<and> d = CHR '']'' then removeArrayMarkers cs
      else c # removeArrayMarkers (d # cs))"
| "removeArrayMarkers cs = cs"

definition convertSearchPathToMongoField :: "string \<Rightarrow> string" where
  "convertSearchPathToMongoField path =
     (let indexedPath = convertBracketIndexesToDotIndexes path
      in removeArrayMarkers indexedPath)"

text \<open>
  The path grammar of the search-parameter dictionary: a path is a dot-separated sequence of
  segments, and a segment is a key, optionally preceded by the collection marker \<open>[]\<close> or by
  an index \<open>[N]\<close>; for example \<open>[]element.[0]target.[]product.element\<close>.
\<close>

datatype segment = Plain string | Coll string | Indexed string string

definition isKeyChar :: "char \<Rightarrow> bool" where
  "isKeyChar c = (c \<noteq> CHR ''['' \<and> c \<noteq> CHR '']'' \<and> c \<noteq> CHR ''.'')"

fun wfSegment :: "segment \<Rightarrow> bool" where
  "wfSegment (Plain k) = (k \<noteq> [] \<and> list_all isKeyChar k)"
| "wfSegment (Coll k) = (k \<noteq> [] \<and> list_all isKeyChar k)"
| "wfSegment (Indexed ds k) =
     (ds \<noteq> [] \<and> list_all isDigit ds \<and> k \<noteq> [] \<and> list_all isKeyChar k)"

fun renderSegment :: "segment \<Rightarrow> string" where
  "renderSegment (Plain k) = k"
| "renderSegment (Coll k) = ''[]'' @ k"
| "renderSegment (Indexed ds k) = ''['' @ ds @ '']'' @ k"

fun renderPath :: "segment list \<Rightarrow> string" where
  "renderPath [] = []"
| "renderPath [s] = renderSegment s"
| "renderPath (s # t # ss) = renderSegment s @ ''.'' @ renderPath (t # ss)"

text \<open>The indexed form and the field form of a segment and of a path.\<close>

fun indexedOfSegment :: "segment \<Rightarrow> string" where
  "indexedOfSegment (Plain k) = k"
| "indexedOfSegment (Coll k) = ''[]'' @ k"
| "indexedOfSegment (Indexed ds k) = k @ ''.'' @ ds"

fun indexedPath :: "segment list \<Rightarrow> string" where
  "indexedPath [] = []"
| "indexedPath [s] = indexedOfSegment s"
| "indexedPath (s # t # ss) = indexedOfSegment s @ ''.'' @ indexedPath (t # ss)"

fun fieldOfSegment :: "segment \<Rightarrow> string" where
  "fieldOfSegment (Plain k) = k"
| "fieldOfSegment (Coll k) = k"
| "fieldOfSegment (Indexed ds k) = k @ ''.'' @ ds"

fun fieldPath :: "segment list \<Rightarrow> string" where
  "fieldPath [] = []"
| "fieldPath [s] = fieldOfSegment s"
| "fieldPath (s # t # ss) = fieldOfSegment s @ ''.'' @ fieldPath (t # ss)"

section \<open>BSON values and documents\<close>

text \<open>
  The values that the compiler puts into query documents. \<open>bson.M\<close> is a Go map with
  string keys; it is modelled as an association list with at most one entry per key, whose
  order stands for the (unspecified) iteration order of the map. \<open>[]bson.M\<close> is a list of
  documents. Numbers handed to the driver as \<open>float64\<close> are carried as rationals, times
  as integers.
\<close>

datatype bson =
    BNil
  | BString string
  | BBool bool
  | BNum rat
  | BTime int
  | BRegex string string
  | BDoc "(string \<times> bson) list"
  | BDocs "(string \<times> bson) list list"

type_synonym bsonM = "(string \<times> bson) list"

definition lookupM :: "bsonM \<Rightarrow> string \<Rightarrow> bson option" where
  "lookupM m k = map_of m k"

definition hasKey :: "bsonM \<Rightarrow> string \<Rightarrow> bool" where
  "hasKey m k = (k \<in> set (map fst m))"

text \<open>\<open>m[k] = v\<close>: replace the value of an existing key, otherwise add the entry.\<close>

fun setKey :: "string \<Rightarrow> bson \<Rightarrow> bsonM \<Rightarrow> bsonM" where
  "setKey k v [] = [(k, v)]"
| "setKey k v ((k', v') # m) = (if k' = k then (k, v) # m else (k', v') # setKey k v m)"

section \<open>Errors\<close>

text \<open>
  The search error of the package: an HTTP status and the arguments from which the operation
  outcome is created (severity, issue code, details code, details display). A Go panic
  carries either such an error or a run-time error (a failed type assertion, a division by
  zero).
\<close>

record OperationOutcome =
  Severity :: string
  IssueCode :: string
  DetailsCode :: string
  DetailsDisplay :: string

definition CreateOpOutcome :: "string \<Rightarrow> string \<Rightarrow> string \<Rightarrow> string \<Rightarrow> OperationOutcome" where
  "CreateOpOutcome severity code detailsCode detailsDisplay =
     \<lparr>Severity = severity, IssueCode = code, DetailsCode = detailsCode,
      DetailsDisplay = detailsDisplay\<rparr>"

record Error =
  HTTPStatus :: nat
  Outcome :: OperationOutcome

datatype panic = SearchError Error | RuntimeError string

definition StatusBadRequest :: nat where "StatusBadRequest = 400"
definition StatusInternalServerError :: nat where "StatusInternalServerError = 500"
definition StatusNotImplemented :: nat where "StatusNotImplemented = 501"

definition createUnsupportedSearchError :: "string \<Rightarrow> string \<Rightarrow> Error" where
  "createUnsupportedSearchError code display =
     \<lparr>HTTPStatus = StatusNotImplemented,
      Outcome = CreateOpOutcome ''error'' ''not-supported'' code display\<rparr>"

definition createInvalidSearchError :: "string \<Rightarrow> string \<Rightarrow> Error" where
  "createInvalidSearchError code display =
     \<lparr>HTTPStatus = StatusBadRequest,
      Outcome = CreateOpOutcome ''error'' ''processing'' code display\<rparr>"

definition createInternalServerError :: "string \<Rightarrow> string \<Rightarrow> Error" where
  "createInternalServerError code display =
     \<lparr>HTTPStatus = StatusInternalServerError,
      Outcome = CreateOpOutcome ''fatal'' ''exception'' code display\<rparr>"

section \<open>Projecting a criterion onto a path\<close>

text \<open>
  The regular expression of \<open>buildBSON\<close>, \<open>(.*\[\][^\.]*)\.?([^\[\]]*)\<close>, as
  \<open>FindStringSubmatch\<close> applies it. From a start position the greedy \<open>.*\<close> (which does not
  cross a newline) backs off to the last \<open>[]\<close> it can reach; the first group ends before
  the next dot, an optional dot is skipped, and the second group runs up to the next
  bracket. The leftmost start position with a match wins; the groups are the same from
  every start position on the line of the marker, apart from the prefix dropped.
\<close>

fun lastMarkerOnLine :: "string \<Rightarrow> nat option" where
  "lastMarkerOnLine (c # d # cs) =
     (if c = CHR 0x0A then None
      else (case lastMarkerOnLine (d # cs) of
              Some i \<Rightarrow> Some (Suc i)
            | None \<Rightarrow> if c = CHR ''['' \<and> d = CHR '']'' then Some 0 else None))"
| "lastMarkerOnLine cs = None"

definition notBracket :: "char \<Rightarrow> bool" where
  "notBracket c = (c \<noteq> CHR ''['' \<and> c \<noteq> CHR '']'')"

fun pathRegexFind :: "string \<Rightarrow> (string \<times> string) option" where
  "pathRegexFind [] = None"
| "pathRegexFind (c # cs) =
     (case lastMarkerOnLine (c # cs) of
        Some i \<Rightarrow>
          (let after = drop (i + 2) (c # cs);
               m1 = take (i + 2) (c # cs) @ takeWhile notDot after;
               rest = dropWhile notDot after;
               m2 = takeWhile notBracket (drop 1 rest)
           in Some (m1, m2))
      | None \<Rightarrow> pathRegexFind cs)"

definition isQueryOperator :: "string \<Rightarrow> bool" where
  "isQueryOperator key = (length key > 0 \<and> key ! 0 = CHR ''$'')"

text \<open>
  \<open>buildBSON\<close> with its helpers. \<open>buildFields\<close> is the loop over the keys of the criteria
  (the same loop body serves the element-match branch, with the right-hand part of the
  path, and the plain branch, with the normalised path); \<open>buildOrs\<close> is the loop of
  \<open>processOrCriteria\<close> over the branches of a disjunction.
\<close>

function buildBSON :: "string \<Rightarrow> bson \<Rightarrow> panic + bsonM"
  and buildFields :: "string \<Rightarrow> bsonM \<Rightarrow> bsonM \<Rightarrow> panic + bsonM"
  and processQueryOperatorCriteria :: "string \<Rightarrow> string \<Rightarrow> bson \<Rightarrow> bsonM \<Rightarrow> panic + bsonM"
  and processOrCriteria :: "string \<Rightarrow> bson \<Rightarrow> bsonM \<Rightarrow> panic + bsonM"
  and buildOrs :: "string \<Rightarrow> bsonM list \<Rightarrow> panic + bsonM list"
where
  "buildBSON path criteria =
     (let indexedPath = convertBracketIndexesToDotIndexes path;
          normalizedPath = convertSearchPathToMongoField path
      in (case criteria of
            BDoc bCriteria \<Rightarrow>
              (case pathRegexFind indexedPath of
                 Some (m1, m2) \<Rightarrow>
                   if length bCriteria > 1 then
                     (let left = removeArrayMarkers m1; right = m2
                      in if length right > 0 then
                           (case buildFields right bCriteria [] of
                              Inl e \<Rightarrow> Inl e
                            | Inr resultCriteria \<Rightarrow>
                                Inr [(left, BDoc [(''$elemMatch'', BDoc resultCriteria)])])
                         else Inr [(left, BDoc [(''$elemMatch'', BDoc bCriteria)])])
                   else buildFields normalizedPath bCriteria []
               | None \<Rightarrow> buildFields normalizedPath bCriteria [])
          | _ \<Rightarrow> Inr [(normalizedPath, criteria)]))"
| "buildFields path [] result = Inr result"
| "buildFields path ((k, v) # kvs) result =
     (if isQueryOperator k then
        (case processQueryOperatorCriteria path k v result of
           Inl e \<Rightarrow> Inl e
         | Inr result' \<Rightarrow> buildFields path kvs result')
      else buildFields path kvs (setKey (path @ ''.'' @ k) v result))"
| "processQueryOperatorCriteria path key val result =
     (if key = ''$or'' then processOrCriteria path val result
      else (case lookupM result path of
              None \<Rightarrow> Inr (setKey path (BDoc [(key, val)]) result)
            | Some (BDoc criteria) \<Rightarrow> Inr (setKey path (BDoc (setKey key val criteria)) result)
            | Some _ \<Rightarrow> Inl (RuntimeError ''interface conversion'')))"
| "processOrCriteria path orValue result =
     (case orValue of
        BDocs ors \<Rightarrow>
          (case buildOrs path ors of
             Inl e \<Rightarrow> Inl e
           | Inr newOrs \<Rightarrow> Inr (setKey ''$or'' (BDocs newOrs) result))
      | _ \<Rightarrow> Inl (SearchError (createInternalServerError '''' '''')))"
| "buildOrs path [] = Inr []"
| "buildOrs path (d # ds) =
     (case buildBSON path (BDoc d) of
        Inl e \<Rightarrow> Inl e
      | Inr b \<Rightarrow> (case buildOrs path ds of Inl e \<Rightarrow> Inl e | Inr bs \<Rightarrow> Inr (b # bs)))"
  by pat_completeness auto
termination
  by (relation "measure (\<lambda>x. case x of
        Inl (Inl (path, criteria)) \<Rightarrow> 2 * size criteria + 1
      | Inl (Inr (path, kvs, result)) \<Rightarrow> 2 * size (BDoc kvs)
      | Inr (Inl (path, key, val, result)) \<Rightarrow> 2 * size val + 3
      | Inr (Inr (Inl (path, orValue, result))) \<Rightarrow> 2 * size orValue + 2
      | Inr (Inr (Inr (path, ds))) \<Rightarrow> 2 * size (BDocs ds))")
     auto

section \<open>Paths and the OR over paths\<close>

record SearchParamPath =
  Path :: string
  Type :: string

text \<open>
  \<open>orPaths\<close>: the loop collects the per-path documents; a document whose only key is
  \<open>$or\<close> (with a non-nil value) contributes its branches, any other document is built a
  second time and appended. A panic of the builder, or a \<open>$or\<close> value that is not a list
  of documents, ends the loop.
\<close>

fun orPathsLoop ::
  "(SearchParamPath \<Rightarrow> panic + bsonM) \<Rightarrow> SearchParamPath list \<Rightarrow> bsonM list \<Rightarrow> panic + bsonM list"
where
  "orPathsLoop objFunc [] results = Inr results"
| "orPathsLoop objFunc (p # ps) results =
     (case objFunc p of
        Inl e \<Rightarrow> Inl e
      | Inr result \<Rightarrow>
          if length result = 1 \<and> lookupM result ''$or'' \<noteq> None
             \<and> lookupM result ''$or'' \<noteq> Some BNil
          then (case lookupM result ''$or'' of
                  Some (BDocs nestedOrs) \<Rightarrow> orPathsLoop objFunc ps (results @ nestedOrs)
                | _ \<Rightarrow> Inl (RuntimeError ''interface conversion''))
          else (case objFunc p of
                  Inl e \<Rightarrow> Inl e
                | Inr again \<Rightarrow> orPathsLoop objFunc ps (results @ [again])))"

definition orPaths ::
  "(SearchParamPath \<Rightarrow> panic + bsonM) \<Rightarrow> SearchParamPath list \<Rightarrow> panic + bsonM"
where
  "orPaths objFunc paths =
     (case orPathsLoop objFunc paths [] of
        Inl e \<Rightarrow> Inl e
      | Inr results \<Rightarrow>
          if length results = 1 then Inr (results ! 0)
          else Inr [(''$or'', BDocs results)])"

section \<open>Query assembler\<close>

text \<open>
  \<open>merge(into, from)\<close>: \<open>mergeLoop\<close> is the loop over the keys of \<open>from\<close>, threading
  the pending conjunction list and the document merged into.
\<close>

fun mergeLoop :: "bsonM \<Rightarrow> bsonM list \<Rightarrow> bsonM \<Rightarrow> panic + (bsonM list \<times> bsonM)" where
  "mergeLoop [] ands into = Inr (ands, into)"
| "mergeLoop ((k, v) # from) ands into =
     (if k = ''$and'' then
        (case v of
           BDocs branches \<Rightarrow> mergeLoop from (ands @ branches) into
         | _ \<Rightarrow> Inl (RuntimeError ''interface conversion''))
      else if hasKey into k then mergeLoop from (ands @ [[(k, v)]]) into
      else mergeLoop from ands (setKey k v into))"

definition merge :: "bsonM \<Rightarrow> bsonM \<Rightarrow> panic + bsonM" where
  "merge into from =
     (case (case lookupM into ''$and'' of
              None \<Rightarrow> Inr []
            | Some (BDocs intoAnd) \<Rightarrow> Inr intoAnd
            | Some _ \<Rightarrow> Inl (RuntimeError ''interface conversion'')) of
        Inl e \<Rightarrow> Inl e
      | Inr ands0 \<Rightarrow>
          (case mergeLoop from ands0 into of
             Inl e \<Rightarrow> Inl e
           | Inr (ands, into') \<Rightarrow>
               if length ands > 0 then Inr (setKey ''$and'' (BDocs ands) into')
               else Inr into'))"

text \<open>The loop of \<open>createQueryObjectFromParams\<close> over the per-parameter documents.\<close>

fun mergeAll :: "bsonM \<Rightarrow> bsonM list \<Rightarrow> panic + bsonM" where
  "mergeAll result [] = Inr result"
| "mergeAll result (p # ps) =
     (case merge result p of Inl e \<Rightarrow> Inl e | Inr result' \<Rightarrow> mergeAll result' ps)"

section \<open>Search parameters\<close>

text \<open>
  The prefix of a parameter; \<open>NoPrefix\<close> is the empty prefix string. The parser produces
  no other prefix strings.
\<close>

datatype Prefix = NoPrefix | EQ | NE | GT | LT | GE | LE | SA | EB

text \<open>
  \<open>SearchParamInfo\<close> (its field \<open>Type\<close> is named \<open>ParamType\<close> here). The parameter
  structs embed it, which record extension mirrors. A date value is used through its two
  range accessors, a number value through its three.
\<close>

record SearchParamInfo =
  Resource :: string
  Name :: string
  ParamType :: string
  Paths :: "SearchParamPath list"
  Targets :: "string list"
  Prefix :: Prefix
  Modifier :: string

record Date =
  RangeLowIncl :: int
  RangeHighExcl :: int

record Number =
  NumRangeLowIncl :: rat
  NumRangeHighExcl :: rat
  NumValue :: rat

record CompositeParam = SearchParamInfo +
  CompositeValues :: "string list"

record DateParam = SearchParamInfo +
  Date :: Date

record NumberParam = SearchParamInfo +
  Number :: Number

record QuantityParam = SearchParamInfo +
  QNumber :: Number
  QSystem :: string
  QCode :: string

record StringParam = SearchParamInfo +
  String :: string

record TokenParam = SearchParamInfo +
  System :: string
  Code :: string
  AnySystem :: bool

record URIParam = SearchParamInfo +
  URI :: string

datatype Reference =
    LocalReference string string
  | ExternalReference string
  | ChainedQueryReference string "SearchParam list"
  | ReverseChainedQueryReference string "SearchParam list"
and SearchParam =
    CompositeP CompositeParam
  | DateP DateParam
  | NumberP NumberParam
  | QuantityP QuantityParam
  | ReferenceP SearchParamInfo Reference
  | StringP StringParam
  | TokenP TokenParam
  | URIP URIParam
  | OrP SearchParamInfo "SearchParam list"

definition infoOf :: "'a SearchParamInfo_scheme \<Rightarrow> SearchParamInfo" where
  "infoOf p = SearchParamInfo.truncate p"

fun getInfo :: "SearchParam \<Rightarrow> SearchParamInfo" where
  "getInfo (CompositeP c) = infoOf c"
| "getInfo (DateP d) = infoOf d"
| "getInfo (NumberP n) = infoOf n"
| "getInfo (QuantityP q) = infoOf q"
| "getInfo (ReferenceP i r) = i"
| "getInfo (StringP s) = infoOf s"
| "getInfo (TokenP t) = infoOf t"
| "getInfo (URIP u) = infoOf u"
| "getInfo (OrP i items) = i"

section \<open>The searcher and its matching policy\<close>

record MongoSearcher =
  countTotalResults :: bool
  enableCISearches :: bool
  tokenParametersCaseSensitive :: bool
  readonly :: bool

text \<open>\<open>regexp.QuoteMeta\<close>: a backslash before each of the bytes \<open>\.+*?()|[]{}^$\<close>.\<close>

definition backslash :: char where
  "backslash = CHR 0x5C"

definition specialBytes :: "char list" where
  "specialBytes = backslash # ''.+*?()|[]{}^$''"

definition QuoteMeta :: "string \<Rightarrow> string" where
  "QuoteMeta s = concat (map (\<lambda>c. if c \<in> set specialBytes then [backslash, c] else [c]) s)"

definition ci :: "MongoSearcher \<Rightarrow> string \<Rightarrow> bson" where
  "ci m s = (if enableCISearches m then BRegex (''^'' @ QuoteMeta s @ ''$'') ''i''
             else BString s)"

definition ciToken :: "MongoSearcher \<Rightarrow> string \<Rightarrow> bson" where
  "ciToken m s =
     (if \<not> tokenParametersCaseSensitive m \<and> enableCISearches m
      then BRegex (''^'' @ QuoteMeta s @ ''$'') ''i''
      else BString s)"

definition cisw :: "MongoSearcher \<Rightarrow> string \<Rightarrow> bson" where
  "cisw m s = (if enableCISearches m then BRegex (''^'' @ QuoteMeta s) ''i''
               else BString s)"

text \<open>Sequencing of computations that may panic, and the messages of the panics.\<close>

definition bindP :: "panic + 'a \<Rightarrow> ('a \<Rightarrow> panic + 'b) \<Rightarrow> panic + 'b" where
  "bindP x f = (case x of Inl e \<Rightarrow> Inl e | Inr a \<Rightarrow> f a)"

definition quoted :: "string \<Rightarrow> string" where
  "quoted s = CHR 0x22 # s @ [CHR 0x22]"

definition unsupported :: "string \<Rightarrow> string \<Rightarrow> panic + 'a" where
  "unsupported code display = Inl (SearchError (createUnsupportedSearchError code display))"

definition contentInvalid :: "string \<Rightarrow> string" where
  "contentInvalid name = ''Parameter '' @ quoted name @ '' content is invalid''"

section \<open>Predicate builders\<close>

subsection \<open>Date parameters\<close>

definition dateSelector :: "DateParam \<Rightarrow> panic + bsonM" where
  "dateSelector d =
     (case Prefix d of
        EQ \<Rightarrow> Inr [(''__from'', BDoc [(''$gte'', BTime (RangeLowIncl (Date d)))]),
                   (''__to'', BDoc [(''$lte'', BTime (RangeHighExcl (Date d)))])]
      | GT \<Rightarrow> Inr [(''__to'', BDoc [(''$gt'', BTime (RangeHighExcl (Date d)))])]
      | LT \<Rightarrow> Inr [(''__from'', BDoc [(''$lt'', BTime (RangeLowIncl (Date d)))])]
      | GE \<Rightarrow> Inr [(''$or'', BDocs
                   [[(''__to'', BDoc [(''$gte'', BTime (RangeHighExcl (Date d)))])],
                    [(''__from'', BDoc [(''$gte'', BTime (RangeLowIncl (Date d)))])]])]
      | LE \<Rightarrow> Inr [(''$or'', BDocs
                   [[(''__from'', BDoc [(''$lte'', BTime (RangeLowIncl (Date d)))])],
                    [(''__to'', BDoc [(''$lte'', BTime (RangeHighExcl (Date d)))])]])]
      | SA \<Rightarrow> Inr [(''__from'', BDoc [(''$gt'', BTime (RangeHighExcl (Date d)))])]
      | EB \<Rightarrow> Inr [(''__to'', BDoc [(''$lt'', BTime (RangeLowIncl (Date d)))])]
      | _ \<Rightarrow> unsupported ''MSG_PARAM_INVALID'' (contentInvalid (Name d)))"

definition instantSelector :: "DateParam \<Rightarrow> panic + bsonM" where
  "instantSelector p =
     (case Prefix p of
        EQ \<Rightarrow> Inr [(''$gte'', BTime (RangeLowIncl (Date p))),
                   (''$lt'', BTime (RangeHighExcl (Date p)))]
      | GT \<Rightarrow> Inr [(''$gt'', BTime (RangeLowIncl (Date p)))]
      | GE \<Rightarrow> Inr [(''$gte'', BTime (RangeLowIncl (Date p)))]
      | SA \<Rightarrow> Inr [(''$gt'', BTime (RangeHighExcl (Date p)))]
      | LT \<Rightarrow> Inr [(''$lt'', BTime (RangeLowIncl (Date p)))]
      | EB \<Rightarrow> Inr [(''$lt'', BTime (RangeLowIncl (Date p)))]
      | LE \<Rightarrow> Inr [(''$lt'', BTime (RangeHighExcl (Date p)))]
      | _ \<Rightarrow> unsupported ''MSG_PARAM_INVALID'' (contentInvalid (Name p)))"

definition periodSelector :: "DateParam \<Rightarrow> panic + bsonM" where
  "periodSelector d =
     (case Prefix d of
        EQ \<Rightarrow> Inr [(''start.__from'', BDoc [(''$gte'', BTime (RangeLowIncl (Date d)))]),
                   (''end.__to'', BDoc [(''$lte'', BTime (RangeHighExcl (Date d)))])]
      | GT \<Rightarrow> Inr [(''$or'', BDocs
                   [[(''end.__to'', BDoc [(''$gt'', BTime (RangeHighExcl (Date d)))])],
                    [(''$ne'', BNil), (''end'', BNil)]])]
      | LT \<Rightarrow> Inr [(''$or'', BDocs
                   [[(''start.__from'', BDoc [(''$lt'', BTime (RangeLowIncl (Date d)))])],
                    [(''$ne'', BNil), (''start'', BNil)]])]
      | GE \<Rightarrow> Inr [(''$or'', BDocs
                   [[(''end.__to'', BDoc [(''$gte'', BTime (RangeHighExcl (Date d)))])],
                    [(''start.__from'', BDoc [(''$gte'', BTime (RangeLowIncl (Date d)))])],
                    [(''$ne'', BNil), (''end'', BNil)]])]
      | LE \<Rightarrow> Inr [(''$or'', BDocs
                   [[(''start.__from'', BDoc [(''$lte'', BTime (RangeLowIncl (Date d)))])],
                    [(''end.__to'', BDoc [(''$lte'', BTime (RangeHighExcl (Date d)))])],
                    [(''$ne'', BNil), (''start'', BNil)]])]
      | SA \<Rightarrow> Inr [(''start.__from'', BDoc [(''$gt'', BTime (RangeHighExcl (Date d)))])]
      | EB \<Rightarrow> Inr [(''end.__to'', BDoc [(''$lt'', BTime (RangeLowIncl (Date d)))])]
      | _ \<Rightarrow> unsupported ''MSG_PARAM_INVALID'' (contentInvalid (Name d)))"

text \<open>The closure \<open>single\<close> of \<open>createDateQueryObject\<close>, and the builder.\<close>

definition dateSingle :: "DateParam \<Rightarrow> SearchParamPath \<Rightarrow> panic + bsonM" where
  "dateSingle d p =
     (if Type p = ''date'' \<or> Type p = ''dateTime'' then
        bindP (dateSelector d) (\<lambda>sel. buildBSON (Path p) (BDoc sel))
      else if Type p = ''instant'' then
        bindP (instantSelector d) (\<lambda>sel. buildBSON (Path p) (BDoc sel))
      else if Type p = ''Period'' then
        bindP (periodSelector d) (\<lambda>sel. buildBSON (Path p) (BDoc sel))
      else if Type p = ''Timing'' then
        bindP (dateSelector d) (\<lambda>sel. buildBSON (Path p @ ''.event'') (BDoc sel))
      else Inr [])"

definition createDateQueryObject :: "MongoSearcher \<Rightarrow> DateParam \<Rightarrow> panic + bsonM" where
  "createDateQueryObject m d = orPaths (dateSingle d) (Paths d)"

subsection \<open>Composite, number and quantity parameters\<close>

definition createCompositeQueryObject :: "MongoSearcher \<Rightarrow> CompositeParam \<Rightarrow> panic + bsonM" where
  "createCompositeQueryObject m c =
     unsupported ''MSG_PARAM_UNKNOWN'' (''Parameter '' @ quoted (Name c) @ '' not understood'')"

definition numberSingle :: "NumberParam \<Rightarrow> SearchParamPath \<Rightarrow> panic + bsonM" where
  "numberSingle n p =
     (let l = NumRangeLowIncl (Number n);
          h = NumRangeHighExcl (Number n);
          exact = NumValue (Number n)
      in if Type p = ''decimal'' then
           unsupported ''MSG_PARAM_INVALID''
             (''Parameter '' @ quoted (Name n) @ '' (decimal type) is not yet supported'')
         else
           bindP (case Prefix n of
                    EQ \<Rightarrow> Inr [(''$gte'', BNum l), (''$lt'', BNum h)]
                  | NE \<Rightarrow> Inr [(''$or'', BDocs [[(''$lt'', BNum l)], [(''$gte'', BNum h)]])]
                  | GT \<Rightarrow> Inr [(''$gt'', BNum exact)]
                  | LT \<Rightarrow> Inr [(''$lt'', BNum exact)]
                  | GE \<Rightarrow> Inr [(''$gte'', BNum l)]
                  | LE \<Rightarrow> Inr [(''$lte'', BNum h)]
                  | _ \<Rightarrow> unsupported ''MSG_PARAM_INVALID'' (contentInvalid (Name n)))
             (\<lambda>criteria. buildBSON (Path p) (BDoc criteria)))"

definition createNumberQueryObject :: "MongoSearcher \<Rightarrow> NumberParam \<Rightarrow> panic + bsonM" where
  "createNumberQueryObject m n = orPaths (numberSingle n) (Paths n)"

definition quantitySingle ::
  "MongoSearcher \<Rightarrow> QuantityParam \<Rightarrow> SearchParamPath \<Rightarrow> panic + bsonM"
where
  "quantitySingle m q p =
     (let l = NumRangeLowIncl (QNumber q);
          h = NumRangeHighExcl (QNumber q);
          exact = NumValue (QNumber q)
      in bindP (case Prefix q of
                  EQ \<Rightarrow> Inr [(''value.__from'', BDoc [(''$gte'', BNum l)]),
                             (''value.__to'', BDoc [(''$lte'', BNum h)])]
                | LT \<Rightarrow> Inr [(''value.__from'', BDoc [(''$lt'', BNum exact)])]
                | GT \<Rightarrow> Inr [(''value.__to'', BDoc [(''$gt'', BNum exact)])]
                | GE \<Rightarrow> Inr [(''$or'', BDocs
                             [[(''value.__to'', BDoc [(''$gte'', BNum h)])],
                              [(''value.__from'', BDoc [(''$gte'', BNum l)])]])]
                | LE \<Rightarrow> Inr [(''$or'', BDocs
                             [[(''value.__from'', BDoc [(''$lte'', BNum l)])],
                              [(''value.__to'', BDoc [(''$lte'', BNum h)])]])]
                | _ \<Rightarrow> unsupported ''MSG_PARAM_INVALID'' (contentInvalid (Name q)))
           (\<lambda>criteria.
              if QSystem q = '''' then
                unsupported ''MSG_PARAM_INVALID''
                  (''Parameter '' @ quoted (Name q)
                     @ '': search by quantity with a code system not yet supported'')
              else
                buildBSON (Path p)
                  (BDoc (setKey ''system'' (ciToken m (QSystem q))
                           (setKey ''code'' (ciToken m (QCode q)) criteria)))))"

definition createQuantityQueryObject :: "MongoSearcher \<Rightarrow> QuantityParam \<Rightarrow> panic + bsonM" where
  "createQuantityQueryObject m q = orPaths (quantitySingle m q) (Paths q)"

subsection \<open>String, token and URI parameters\<close>

definition stringSingle :: "MongoSearcher \<Rightarrow> StringParam \<Rightarrow> SearchParamPath \<Rightarrow> panic + bsonM" where
  "stringSingle m s p =
     (if Type p = ''HumanName'' then
        buildBSON (Path p) (BDoc [(''$or'', BDocs
          [[(''text'', cisw m (String s))],
           [(''family'', cisw m (String s))],
           [(''given'', cisw m (String s))]])])
      else if Type p = ''Address'' then
        buildBSON (Path p) (BDoc [(''$or'', BDocs
          [[(''text'', cisw m (String s))],
           [(''line'', cisw m (String s))],
           [(''city'', cisw m (String s))],
           [(''state'', cisw m (String s))],
           [(''postalCode'', cisw m (String s))],
           [(''country'', cisw m (String s))]])])
      else if Name s = ''_id'' then buildBSON (Path p) (BString (String s))
      else buildBSON (Path p) (ci m (String s)))"

definition createStringQueryObject :: "MongoSearcher \<Rightarrow> StringParam \<Rightarrow> panic + bsonM" where
  "createStringQueryObject m s = orPaths (stringSingle m s) (Paths s)"

text \<open>
  The two criteria of a token, each possibly absent (\<open>nil\<close>), as the first statement of
  \<open>createTokenQueryObject\<close> computes them.
\<close>

definition tokenCriteria :: "MongoSearcher \<Rightarrow> TokenParam \<Rightarrow> bson option \<times> bson option" where
  "tokenCriteria m t =
     (if Code t = '''' then (Some (ciToken m (System t)), None)
      else if System t = '''' then
        (if AnySystem t then (None, Some (ciToken m (Code t)))
         else (Some (BDoc [(''$exists'', BBool False)]), Some (ciToken m (Code t))))
      else (Some (ciToken m (System t)), Some (ciToken m (Code t))))"

definition setIfPresent :: "string \<Rightarrow> bson option \<Rightarrow> bsonM \<Rightarrow> bsonM" where
  "setIfPresent k c criteria = (case c of None \<Rightarrow> criteria | Some v \<Rightarrow> setKey k v criteria)"

definition tokenSingle :: "MongoSearcher \<Rightarrow> TokenParam \<Rightarrow> SearchParamPath \<Rightarrow> panic + bsonM" where
  "tokenSingle m t p =
     (let systemCriteria = fst (tokenCriteria m t);
          codeCriteria = snd (tokenCriteria m t)
      in if Type p = ''Coding'' then
           buildBSON (Path p)
             (BDoc (setIfPresent ''code'' codeCriteria (setIfPresent ''system'' systemCriteria [])))
         else if Type p = ''CodeableConcept'' then
           (case (systemCriteria, codeCriteria) of
              (Some sc, Some cc) \<Rightarrow>
                buildBSON (Path p)
                  (BDoc [(''coding'', BDoc [(''$elemMatch'', BDoc [(''system'', sc), (''code'', cc)])])])
            | _ \<Rightarrow>
                buildBSON (Path p)
                  (BDoc (setIfPresent ''coding.code'' codeCriteria
                           (setIfPresent ''coding.system'' systemCriteria []))))
         else if Type p = ''Identifier'' then
           buildBSON (Path p)
             (BDoc (setIfPresent ''value'' codeCriteria (setIfPresent ''system'' systemCriteria [])))
         else if Type p = ''ContactPoint'' then
           buildBSON (Path p)
             (BDoc (if \<not> AnySystem t
                    then setKey ''use'' (ciToken m (System t)) [(''value'', ci m (Code t))]
                    else [(''value'', ci m (Code t))]))
         else if Type p = ''boolean'' then
           (if Code t = ''true'' then buildBSON (Path p) (BBool True)
            else if Code t = ''false'' then buildBSON (Path p) (BBool False)
            else Inl (SearchError (createInvalidSearchError ''MSG_PARAM_INVALID''
                                     (contentInvalid (Name t)))))
         else if Type p = ''string'' then buildBSON (Path p) (ci m (Code t))
         else if Type p = ''code'' then buildBSON (Path p) (ciToken m (Code t))
         else if Type p = ''id'' then buildBSON (Path p) (BString (Code t))
         else buildBSON (Path p) (BDoc []))"

definition createTokenQueryObject :: "MongoSearcher \<Rightarrow> TokenParam \<Rightarrow> panic + bsonM" where
  "createTokenQueryObject m t = orPaths (tokenSingle m t) (Paths t)"

definition createURIQueryObject :: "MongoSearcher \<Rightarrow> URIParam \<Rightarrow> panic + bsonM" where
  "createURIQueryObject m u = orPaths (\<lambda>p. buildBSON (Path p) (BString (URI u))) (Paths u)"

subsection \<open>Dispatch over the parameters\<close>

text \<open>
  \<open>panicOnUnsupportedFeatures\<close>. The names of the resources in the search-parameter
  dictionary, which the check of a modifier consults, are a parameter.
\<close>

fun isDate :: "SearchParam \<Rightarrow> bool" where
  "isDate (DateP d) = True" | "isDate p = False"

fun isNumber :: "SearchParam \<Rightarrow> bool" where
  "isNumber (NumberP n) = True" | "isNumber p = False"

fun isQuantity :: "SearchParam \<Rightarrow> bool" where
  "isQuantity (QuantityP q) = True" | "isQuantity p = False"

fun isRef :: "SearchParam \<Rightarrow> bool" where
  "isRef (ReferenceP i r) = True" | "isRef p = False"

definition panicOnUnsupportedFeatures :: "string list \<Rightarrow> SearchParam \<Rightarrow> panic + unit" where
  "panicOnUnsupportedFeatures dictionary p =
     (let prefix = Prefix (getInfo p) in
      if prefix \<noteq> NoPrefix \<and> prefix \<noteq> EQ \<and> \<not> isDate p \<and> \<not> isNumber p \<and> \<not> isQuantity p then
        unsupported ''MSG_PARAM_INVALID'' (contentInvalid (Name (getInfo p)))
      else
        (let modifier = Modifier (getInfo p) in
         if modifier \<noteq> '''' \<and> (\<not> isRef p \<or> modifier \<notin> set dictionary) then
           unsupported ''MSG_PARAM_MODIFIER_INVALID''
             (''Parameter '' @ quoted (Name (getInfo p)) @ '' modifier is invalid'')
         else Inr ()))"

text \<open>
  The builders that recurse: a reference inlined in the resource carries a chained query,
  whose parameters are compiled and merged like those of the outer query, and a disjunction
  compiles its items. \<open>createParamObject\<close> is the body of the loop of
  \<open>createParamObjects\<close>.
\<close>

function createParamObject :: "string list \<Rightarrow> MongoSearcher \<Rightarrow> SearchParam \<Rightarrow> panic + bsonM"
  and createParamObjects :: "string list \<Rightarrow> MongoSearcher \<Rightarrow> SearchParam list \<Rightarrow> panic + bsonM list"
where
  "createParamObject dictionary m (CompositeP c) =
     bindP (panicOnUnsupportedFeatures dictionary (CompositeP c))
       (\<lambda>_. createCompositeQueryObject m c)"
| "createParamObject dictionary m (DateP d) =
     bindP (panicOnUnsupportedFeatures dictionary (DateP d))
       (\<lambda>_. createDateQueryObject m d)"
| "createParamObject dictionary m (NumberP n) =
     bindP (panicOnUnsupportedFeatures dictionary (NumberP n))
       (\<lambda>_. createNumberQueryObject m n)"
| "createParamObject dictionary m (QuantityP q) =
     bindP (panicOnUnsupportedFeatures dictionary (QuantityP q))
       (\<lambda>_. createQuantityQueryObject m q)"
| "createParamObject dictionary m (ReferenceP r ref) =
     bindP (panicOnUnsupportedFeatures dictionary (ReferenceP r ref))
       (\<lambda>_. orPaths
          (\<lambda>p. if Type p = ''Resource'' then
                  (case ref of
                     LocalReference refType refID \<Rightarrow>
                       buildBSON (Path p)
                         (BDoc (setKey ''_id'' (BString refID)
                                  (if refType \<noteq> '''' then [(''resourceType'', BString refType)]
                                   else [])))
                   | ChainedQueryReference refType chainedQuery \<Rightarrow>
                       bindP (bindP (createParamObjects dictionary m chainedQuery) (mergeAll []))
                         (\<lambda>criteria.
                            buildBSON (Path p)
                              (BDoc (if refType \<noteq> ''''
                                     then setKey ''resourceType'' (BString refType) criteria
                                     else criteria)))
                   | ExternalReference url \<Rightarrow>
                       unsupported ''MSG_PARAM_INVALID'' (contentInvalid (Name r))
                   | ReverseChainedQueryReference refType query \<Rightarrow>
                       buildBSON (Path p) (BDoc []))
                else
                  (case ref of
                     LocalReference refType refID \<Rightarrow>
                       buildBSON (Path p)
                         (BDoc (if refType \<noteq> ''''
                                then [(''reference__id'', BString refID),
                                      (''reference__type'', BString refType)]
                                else [(''reference__id'', BString refID)]))
                   | ExternalReference url \<Rightarrow>
                       buildBSON (Path p) (BDoc [(''reference'', ci m url)])
                   | ChainedQueryReference refType chainedQuery \<Rightarrow>
                       Inl (SearchError (createInternalServerError ''''
                         ''createReferenceQueryObject should not be used to create ChainedQueryReferences''))
                   | ReverseChainedQueryReference refType query \<Rightarrow>
                       Inl (SearchError (createInternalServerError ''''
                         ''createReferenceQueryObject should not be used to create ReverseChainedQueryReferences''))))
          (Paths r))"
| "createParamObject dictionary m (StringP s) =
     bindP (panicOnUnsupportedFeatures dictionary (StringP s))
       (\<lambda>_. createStringQueryObject m s)"
| "createParamObject dictionary m (TokenP t) =
     bindP (panicOnUnsupportedFeatures dictionary (TokenP t))
       (\<lambda>_. createTokenQueryObject m t)"
| "createParamObject dictionary m (URIP u) =
     bindP (panicOnUnsupportedFeatures dictionary (URIP u))
       (\<lambda>_. createURIQueryObject m u)"
| "createParamObject dictionary m (OrP info items) =
     bindP (panicOnUnsupportedFeatures dictionary (OrP info items))
       (\<lambda>_. bindP (createParamObjects dictionary m items)
                (\<lambda>objs. Inr [(''$or'', BDocs objs)]))"
| "createParamObjects dictionary m [] = Inr []"
| "createParamObjects dictionary m (p # ps) =
     bindP (createParamObject dictionary m p)
       (\<lambda>obj. bindP (createParamObjects dictionary m ps) (\<lambda>objs. Inr (obj # objs)))"
  by pat_completeness auto
termination
  by (relation "measure (\<lambda>x. case x of
        Inl (dictionary, m, p) \<Rightarrow> 2 * size p + 1
      | Inr (dictionary, m, ps) \<Rightarrow> 2 * size_list size ps)")
     auto

definition createQueryObjectFromParams ::
  "string list \<Rightarrow> MongoSearcher \<Rightarrow> SearchParam list \<Rightarrow> panic + bsonM"
where
  "createQueryObjectFromParams dictionary m params =
     bindP (createParamObjects dictionary m params) (mergeAll [])"

text \<open>
  A computation signals an unsupported search when it panics with a search error of HTTP
  status 501 whose issue code is \<open>not-supported\<close>.
\<close>

definition signalsUnsupportedSearch :: "panic + 'a \<Rightarrow> bool" where
  "signalsUnsupportedSearch r =
     (case r of
        Inl (SearchError e) \<Rightarrow>
          HTTPStatus e = 501 \<and> IssueCode (Outcome e) = ''not-supported''
      | _ \<Rightarrow> False)"

section \<open>Reading query documents\<close>

text \<open>The conjunction list of a document: the branches under its top-level \<open>$and\<close>.\<close>

definition andList :: "bsonM \<Rightarrow> bsonM list" where
  "andList m = (case lookupM m ''$and'' of Some (BDocs branches) \<Rightarrow> branches | _ \<Rightarrow> [])"

text \<open>
  A constraint \<open>{k: v}\<close> is kept by a document when the document binds \<open>k\<close> to \<open>v\<close> at
  the top level or holds \<open>{k: v}\<close> as a branch of its conjunction list.
\<close>

definition keeps :: "bsonM \<Rightarrow> string \<Rightarrow> bson \<Rightarrow> bool" where
  "keeps m k v = (lookupM m k = Some v \<or> [(k, v)] \<in> set (andList m))"

text \<open>
  The OR-over-paths rule in the words of the specification: a document whose only key is a
  top-level \<open>$or\<close> contributes its branches, any other document contributes itself, and a
  single contribution is emitted without a wrapper.
\<close>

fun orBranches :: "bsonM \<Rightarrow> bsonM list" where
  "orBranches [(k, BDocs branches)] = (if k = ''$or'' then branches else [[(k, BDocs branches)]])"
| "orBranches d = [d]"

definition disjunctionOf :: "bsonM list \<Rightarrow> bsonM" where
  "disjunctionOf ds =
     (let results = concat (map orBranches ds)
      in if length results = 1 then results ! 0 else [(''$or'', BDocs results)])"

text \<open>
  The meaning of the disjunction operator of the database: a stored document satisfies
  \<open>{$or: [q1, ..., qn]}\<close> when it satisfies one of the branches. The meaning of every other
  query document is left open: it is the parameter \<open>leaf\<close>.
\<close>

function satisfies :: "(bsonM \<Rightarrow> bool) \<Rightarrow> bsonM \<Rightarrow> bool" where
  "satisfies leaf q =
     (case q of
        [(k, BDocs branches)] \<Rightarrow>
          if k = ''$or'' then (\<exists>b \<in> set branches. satisfies leaf b) else leaf q
      | _ \<Rightarrow> leaf q)"
  by pat_completeness auto
termination
proof (relation "measure (\<lambda>(leaf, q). size (BDoc q))", goal_cases)
  case 1
  show ?case by simp
next
  case (2 leaf q p ps k v branches b)
  then have a: "size_list (size_prod (\<lambda>_. 0) size) b
             \<le> size_list (size_list (size_prod (\<lambda>_. 0) size)) branches"
    by (simp add: size_list_estimation')
  from 2 have "p = (k, BDocs branches)" by auto
  with a 2 show ?case by simp
qed

declare satisfies.simps [simp del]

text \<open>
  A document whose only key is \<open>$or\<close> is well typed for \<open>orPaths\<close> when the value of the
  key is a list of documents or nil; the type assertion of \<open>orPaths\<close> fails on anything
  else.
\<close>

fun orTyped :: "bsonM \<Rightarrow> bool" where
  "orTyped [(k, BDocs branches)] = True"
| "orTyped [(k, BNil)] = True"
| "orTyped [(k, v)] = (k \<noteq> ''$or'')"
| "orTyped d = True"

section \<open>Executor\<close>

text \<open>
  The database driver is outside the repository. It is modelled by the answers it gives:
  a record of functions from the arguments of an operation to its result. The executor
  returns, with its result, the list of the operations it issued, in order. A cursor is the
  list of its rows, each of which decodes or fails to decode, and the error (if any) with
  which iteration ends after the rows. The translation of the query options into driver
  options and pipeline stages is not modelled: the primary query is identified by the
  collection, the compiled query and the options.
\<close>

datatype err = DriverError string | Wrapped err string

datatype Row = Undecodable err | Decoded bsonM

record Cursor =
  rows :: "Row list"
  tailErr :: "err option"

record QueryOptions =
  Summary :: string
  Count :: nat
  Offset :: nat

text \<open>
  \<open>Query\<close> is the resource name and the raw query string; its parsed options and its
  compiled form are passed to the executor alongside. \<open>BSONQuery\<close> holds either a query
  document or a pipeline; a \<open>nil\<close> query document is \<open>None\<close>.
\<close>

record Query =
  QResource :: string
  RawQuery :: string

record BSONQuery =
  BResource :: string
  BQuery :: "bsonM option"
  Pipeline :: "bsonM list"

definition usesPipeline :: "BSONQuery \<Rightarrow> bool" where
  "usesPipeline b = (BQuery b = None)"

datatype dbOp =
    CacheFindOne string
  | CountDocuments string bson
  | AggregateCount string "bsonM list"
  | AggregateSearch string "bsonM list" QueryOptions
  | Find string bsonM QueryOptions
  | CacheInsertOne string "32 word"

record Driver =
  md5hex :: "string \<Rightarrow> string"
  PluralizeLowerResourceName :: "string \<Rightarrow> string"
  cacheFindOne :: "string \<Rightarrow> err + 32 word"
  cacheInsertOne :: "string \<Rightarrow> 32 word \<Rightarrow> err option"
  countDocuments :: "string \<Rightarrow> bson \<Rightarrow> err + int"
  aggregateCount :: "string \<Rightarrow> bsonM list \<Rightarrow> err + Cursor"
  aggregateSearch :: "string \<Rightarrow> bsonM list \<Rightarrow> QueryOptions \<Rightarrow> err + Cursor"
  findDocuments :: "string \<Rightarrow> bsonM \<Rightarrow> QueryOptions \<Rightarrow> err + Cursor"
  decodeTotal :: "bsonM \<Rightarrow> err + int"
  NewResourceFromBSON :: "bsonM \<Rightarrow> err + bsonM"

definition uint32 :: "int \<Rightarrow> 32 word" where
  "uint32 n = word_of_int n"

text \<open>\<open>find\<close>: the count, when it is asked for or the summary is \<open>count\<close>, then the query.\<close>

definition find ::
  "Driver \<Rightarrow> BSONQuery \<Rightarrow> QueryOptions \<Rightarrow> bool \<Rightarrow> dbOp list \<times> (err + Cursor option \<times> 32 word)"
where
  "find drv bsonQuery queryOptions doCount =
     (let c = PluralizeLowerResourceName drv (BResource bsonQuery);
          q = (case BQuery bsonQuery of Some d \<Rightarrow> d | None \<Rightarrow> []);
          flt = (case BQuery bsonQuery of Some d \<Rightarrow> BDoc d | None \<Rightarrow> BNil);
          counted =
            (if doCount \<or> Summary queryOptions = ''count'' then
               (case countDocuments drv c flt of
                  Inl e \<Rightarrow> ([CountDocuments c flt],
                            Inl (Wrapped e ''search count operation failed''))
                | Inr intTotal \<Rightarrow> ([CountDocuments c flt], Inr (uint32 intTotal)))
             else ([], Inr 0))
      in (case snd counted of
            Inl e \<Rightarrow> (fst counted, Inl e)
          | Inr tot \<Rightarrow>
              if Summary queryOptions = ''count'' then (fst counted, Inr (None, tot))
              else
                (case findDocuments drv c q queryOptions of
                   Inl e \<Rightarrow> (fst counted @ [Find c q queryOptions],
                             Inl (Wrapped e ''search find operation failed''))
                 | Inr searchCursor \<Rightarrow>
                     (fst counted @ [Find c q queryOptions], Inr (Some searchCursor, tot)))))"

text \<open>
  \<open>aggregate\<close>: the count is a count of documents when the pipeline is the initial
  \<open>$match\<close> alone, otherwise the pipeline with a \<open>$group\<close> stage appended.
\<close>

definition countStage :: bsonM where
  "countStage = [(''$group'', BDoc [(''_id'', BNil), (''total'', BDoc [(''$sum'', BNum 1)])])]"

definition aggregateTotal :: "Driver \<Rightarrow> string \<Rightarrow> BSONQuery \<Rightarrow> dbOp list \<times> (err + 32 word)" where
  "aggregateTotal drv c bsonQuery =
     (if length (Pipeline bsonQuery) = 1 then
        (let match = (case lookupM (Pipeline bsonQuery ! 0) ''$match'' of
                        Some v \<Rightarrow> v | None \<Rightarrow> BNil)
         in (case countDocuments drv c match of
               Inl e \<Rightarrow> ([CountDocuments c match], Inl e)
             | Inr intTotal \<Rightarrow> ([CountDocuments c match], Inr (uint32 intTotal))))
      else
        (let countPipeline = Pipeline bsonQuery @ [countStage]
         in ([AggregateCount c countPipeline],
             (case aggregateCount drv c countPipeline of
                Inl e \<Rightarrow> Inl (Wrapped e ''aggregate count failed'')
              | Inr cursor \<Rightarrow>
                  (case rows cursor of
                     Undecodable e # _ \<Rightarrow> Inl (Wrapped e ''aggregate count decode failed'')
                   | Decoded d # _ \<Rightarrow>
                       (case decodeTotal drv d of
                          Inl e \<Rightarrow> Inl (Wrapped e ''aggregate count decode failed'')
                        | Inr t \<Rightarrow> Inr (uint32 t))
                   | [] \<Rightarrow>
                       (case tailErr cursor of
                          Some e \<Rightarrow> Inl (Wrapped e ''aggregate count cursor --> next failed'')
                        | None \<Rightarrow> Inr 0))))))"

definition aggregate ::
  "Driver \<Rightarrow> BSONQuery \<Rightarrow> QueryOptions \<Rightarrow> bool \<Rightarrow> dbOp list \<times> (err + Cursor option \<times> 32 word)"
where
  "aggregate drv bsonQuery options doCount =
     (let c = PluralizeLowerResourceName drv (BResource bsonQuery);
          counted = (if doCount \<or> Summary options = ''count''
                     then aggregateTotal drv c bsonQuery else ([], Inr 0))
      in (case snd counted of
            Inl e \<Rightarrow> (fst counted, Inl e)
          | Inr tot \<Rightarrow>
              if Summary options = ''count'' then (fst counted, Inr (None, tot))
              else
                (case aggregateSearch drv c (Pipeline bsonQuery) options of
                   Inl e \<Rightarrow> (fst counted @ [AggregateSearch c (Pipeline bsonQuery) options],
                             Inl (Wrapped e ''aggregate operation failed''))
                 | Inr cursor \<Rightarrow>
                     (fst counted @ [AggregateSearch c (Pipeline bsonQuery) options],
                      Inr (Some cursor, tot)))))"

text \<open>The loop of \<open>Search\<close> that collects the resources from the cursor.\<close>

fun collectRows :: "Driver \<Rightarrow> Row list \<Rightarrow> bsonM list \<Rightarrow> err + bsonM list" where
  "collectRows drv [] resources = Inr resources"
| "collectRows drv (Undecodable e # rest) resources =
     Inl (Wrapped e ''Search result decoding error'')"
| "collectRows drv (Decoded document # rest) resources =
     (case NewResourceFromBSON drv document of
        Inl e \<Rightarrow> Inl (Wrapped e ''Search: NewResourceFromBSON failed'')
      | Inr resource \<Rightarrow> collectRows drv rest (resources @ [resource]))"

definition collect :: "Driver \<Rightarrow> Cursor option \<Rightarrow> err + bsonM list" where
  "collect drv cursor =
     (case cursor of
        None \<Rightarrow> Inr []
      | Some cur \<Rightarrow>
          (case collectRows drv (rows cur) [] of
             Inl e \<Rightarrow> Inl e
           | Inr resources \<Rightarrow>
               (case tailErr cur of
                  Some e \<Rightarrow> Inl (Wrapped e ''Search cursor error'')
                | None \<Rightarrow> Inr resources)))"

text \<open>The step of \<open>Search\<close> that executes the query, by aggregation or by a plain find.\<close>

definition execute ::
  "Driver \<Rightarrow> BSONQuery \<Rightarrow> QueryOptions \<Rightarrow> bool \<Rightarrow> dbOp list \<times> (err + Cursor option \<times> 32 word)"
where
  "execute drv bsonQuery options doCount =
     (if usesPipeline bsonQuery then aggregate drv bsonQuery options doCount
      else find drv bsonQuery options doCount)"

text \<open>
  \<open>Search\<close>. The result is a panic of the compiler, or the triple of the function: an
  error, or the resources and the total. \<open>cacheLookup\<close> is the first block of the function:
  the operations issued, the fingerprint, and the cached total on a hit.
\<close>

definition fingerprint :: "Driver \<Rightarrow> Query \<Rightarrow> string" where
  "fingerprint drv query = md5hex drv (QResource query @ ''?'' @ RawQuery query)"

definition cacheLookup :: "MongoSearcher \<Rightarrow> Driver \<Rightarrow> Query \<Rightarrow> dbOp list \<times> string \<times> 32 word option" where
  "cacheLookup m drv query =
     (if readonly m \<and> countTotalResults m then
        (let queryHash = fingerprint drv query
         in ([CacheFindOne queryHash], queryHash,
             (case cacheFindOne drv queryHash of Inr cnt \<Rightarrow> Some cnt | Inl e \<Rightarrow> None)))
      else ([], '''', None))"

definition Search ::
  "MongoSearcher \<Rightarrow> Driver \<Rightarrow> Query \<Rightarrow> QueryOptions \<Rightarrow> panic + BSONQuery
     \<Rightarrow> dbOp list \<times> (panic + err + bsonM list \<times> 32 word)"
where
  "Search m drv query options compiled =
     (let (ops1, queryHash, cached) = cacheLookup m drv query;
          doCount0 = (cached = None);
          tot = (case cached of Some cnt \<Rightarrow> cnt | None \<Rightarrow> 0)
      in if readonly m \<and> \<not> doCount0 \<and> tot = 0 then (ops1, Inr (Inr ([], 0)))
         else
           (let doCount = (doCount0 \<and> countTotalResults m)
            in (case compiled of
                  Inl p \<Rightarrow> (ops1, Inl p)
                | Inr bsonQuery \<Rightarrow>
                    (let (ops2, ran) = execute drv bsonQuery options doCount
                     in (case ran of
                           Inl e \<Rightarrow> (ops1 @ ops2, Inr (Inl (Wrapped e ''Search error'')))
                         | Inr (cursor, computedTotal) \<Rightarrow>
                             if Summary options = ''count''
                             then (ops1 @ ops2, Inr (Inr ([], computedTotal)))
                             else
                               (case collect drv cursor of
                                  Inl e \<Rightarrow> (ops1 @ ops2, Inr (Inl e))
                                | Inr resources \<Rightarrow>
                                    (ops1 @ ops2
                                       @ (if readonly m \<and> countTotalResults m \<and> doCount
                                          then [CacheInsertOne queryHash computedTotal] else []),
                                     Inr (Inr (resources,
                                               if doCount then computedTotal else tot)))))))))"

text \<open>Kinds of operations: a write to the count cache, and a count query.\<close>

fun isCacheInsert :: "dbOp \<Rightarrow> bool" where
  "isCacheInsert (CacheInsertOne h c) = True"
| "isCacheInsert op = False"

fun isCountQuery :: "dbOp \<Rightarrow> bool" where
  "isCountQuery (CountDocuments c f) = True"
| "isCountQuery (AggregateCount c p) = True"
| "isCountQuery op = False"

section \<open>Example values\<close>

text \<open>Concrete searchers and parameters, for evaluating the definitions.\<close>

definition searcherCI :: MongoSearcher where
  "searcherCI = \<lparr>countTotalResults = True, enableCISearches = True,
                 tokenParametersCaseSensitive = False, readonly = False\<rparr>"

definition infoExample :: "string \<Rightarrow> string \<Rightarrow> string \<Rightarrow> SearchParamPath list \<Rightarrow> SearchParamInfo" where
  "infoExample resource name paramType paths =
     \<lparr>Resource = resource, Name = name, ParamType = paramType, Paths = paths,
      Targets = [], Prefix = NoPrefix, Modifier = ''''\<rparr>"


definition stringExample :: "string \<Rightarrow> SearchParamPath list \<Rightarrow> string \<Rightarrow> StringParam" where
  "stringExample name paths s =
     SearchParamInfo.extend (infoExample ''Patient'' name ''string'' paths)
       (StringParam.fields s)"

definition numberExample :: "SearchParamPath list \<Rightarrow> Prefix \<Rightarrow> Number \<Rightarrow> NumberParam" where
  "numberExample paths prefix number =
     SearchParamInfo.extend
       ((infoExample ''RiskAssessment'' ''probability'' ''number'' paths)\<lparr>Prefix := prefix\<rparr>)
       (NumberParam.fields number)"

text \<open>A per-path builder whose document is a disjunction with a single branch.\<close>

definition singleBranchBuilder :: "SearchParamPath \<Rightarrow> panic + bsonM" where
  "singleBranchBuilder p = Inr [(''$or'', BDocs [[(Path p, BBool True)]])]"

definition genderExample :: "string \<Rightarrow> TokenParam" where
  "genderExample code =
     SearchParamInfo.extend
       (infoExample ''Patient'' ''gender'' ''token'' [\<lparr>Path = ''gender'', Type = ''code''\<rparr>])
       (TokenParam.fields '''' code True)"

text \<open>
  A read-only searcher with counts, a driver whose count cache either holds a total for
  every fingerprint or holds nothing and whose collections hold \<open>n\<close> documents that no
  query returns, and two searches over all patients.
\<close>

definition searcherReadOnly :: MongoSearcher where
  "searcherReadOnly = \<lparr>countTotalResults = True, enableCISearches = True,
                       tokenParametersCaseSensitive = False, readonly = True\<rparr>"

definition countingDriver :: "32 word option \<Rightarrow> int \<Rightarrow> Driver" where
  "countingDriver cached n =
     \<lparr>md5hex = (\<lambda>s. ''md5:'' @ s),
      PluralizeLowerResourceName = (\<lambda>r. r @ ''s''),
      cacheFindOne = (\<lambda>h. case cached of
                              Some cnt \<Rightarrow> Inr cnt
                            | None \<Rightarrow> Inl (DriverError ''no documents in result'')),
      cacheInsertOne = (\<lambda>h c. None),
      countDocuments = (\<lambda>c f. Inr n),
      aggregateCount = (\<lambda>c p. Inr \<lparr>rows = [], tailErr = None\<rparr>),
      aggregateSearch = (\<lambda>c p opts. Inr \<lparr>rows = [], tailErr = None\<rparr>),
      findDocuments = (\<lambda>c q opts. Inr \<lparr>rows = [], tailErr = None\<rparr>),
      decodeTotal = (\<lambda>d. Inr n),
      NewResourceFromBSON = (\<lambda>d. Inr d)\<rparr>"

definition allPatients :: Query where
  "allPatients = \<lparr>QResource = ''Patient'', RawQuery = ''''\<rparr>"

definition allPatientsCompiled :: BSONQuery where
  "allPatientsCompiled = \<lparr>BResource = ''Patient'', BQuery = Some [], Pipeline = []\<rparr>"

definition summaryCount :: QueryOptions where
  "summaryCount = \<lparr>Summary = ''count'', Count = 100, Offset = 0\<rparr>"

definition firstPage :: QueryOptions where
  "firstPage = \<lparr>Summary = '''', Count = 100, Offset = 0\<rparr>"

section \<open>Verified properties\<close>

subsection \<open>Path normalisation\<close>

lemma conv_nobracket: "CHR ''['' \<notin> set s \<Longrightarrow> convertBracketIndexesToDotIndexes s = s"
  by (induction s) auto

lemma conv_key_append: "CHR ''['' \<notin> set k \<Longrightarrow>
   convertBracketIndexesToDotIndexes (k @ r) = k @ convertBracketIndexesToDotIndexes r"
  by (induction k) auto

lemma rm_nobracket: "CHR ''['' \<notin> set s \<Longrightarrow> removeArrayMarkers s = s"
  by (induction s rule: removeArrayMarkers.induct) auto

lemma rm_key_append: "CHR ''['' \<notin> set k \<Longrightarrow>
   removeArrayMarkers (k @ r) = k @ removeArrayMarkers r"
proof (induction k)
  case Nil then show ?case by simp
next
  case (Cons a k)
  then show ?case by (cases "k @ r") auto
qed

lemma normalise_nobracket: "CHR ''['' \<notin> set s \<Longrightarrow> convertSearchPathToMongoField s = s"
  by (simp add: convertSearchPathToMongoField_def conv_nobracket rm_nobracket)


lemma key_nobracket: "list_all isKeyChar k \<Longrightarrow> CHR ''['' \<notin> set k"
  by (auto simp: list_all_iff isKeyChar_def)

lemma key_nodot: "list_all isKeyChar k \<Longrightarrow> takeWhile notDot (k @ CHR ''.'' # r) = k"
  by (induction k) (auto simp: isKeyChar_def notDot_def)

lemma key_nodot_drop: "list_all isKeyChar k \<Longrightarrow> dropWhile notDot (k @ CHR ''.'' # r) = CHR ''.'' # r"
  by (induction k) (auto simp: isKeyChar_def notDot_def)

lemma key_nodot_end: "list_all isKeyChar k \<Longrightarrow> takeWhile notDot k = k"
  by (induction k) (auto simp: isKeyChar_def notDot_def)

lemma key_nodot_drop_end: "list_all isKeyChar k \<Longrightarrow> dropWhile notDot k = []"
  by (induction k) (auto simp: isKeyChar_def notDot_def)

lemma digits_take: "list_all isDigit ds \<Longrightarrow> takeWhile isDigit (ds @ CHR '']'' # r) = ds"
  by (induction ds) (auto simp: isDigit_def)

lemma digits_drop: "list_all isDigit ds \<Longrightarrow> dropWhile isDigit (ds @ CHR '']'' # r) = CHR '']'' # r"
  by (induction ds) (auto simp: isDigit_def)

lemma conv_segment_dot:
  assumes "wfSegment s"
  shows "convertBracketIndexesToDotIndexes (renderSegment s @ CHR ''.'' # r)
         = indexedOfSegment s @ CHR ''.'' # convertBracketIndexesToDotIndexes r"
proof (cases s)
  case (Plain k)
  with assms show ?thesis by (simp add: conv_key_append key_nobracket)
next
  case (Coll k)
  with assms show ?thesis by (simp add: conv_key_append key_nobracket isDigit_def)
next
  case (Indexed ds k)
  with assms show ?thesis
    by (simp add: digits_take digits_drop key_nodot key_nodot_drop)
qed

lemma conv_segment_end:
  assumes "wfSegment s"
  shows "convertBracketIndexesToDotIndexes (renderSegment s) = indexedOfSegment s"
proof (cases s)
  case (Plain k)
  with assms show ?thesis by (simp add: conv_nobracket key_nobracket)
next
  case (Coll k)
  with assms show ?thesis using conv_key_append [of k "[]"] by (simp add: key_nobracket isDigit_def)
next
  case (Indexed ds k)
  with assms show ?thesis
    by (simp add: digits_take digits_drop key_nodot_end key_nodot_drop_end)
qed

lemma conv_path: "list_all wfSegment ss \<Longrightarrow>
   convertBracketIndexesToDotIndexes (renderPath ss) = indexedPath ss"
proof (induction ss rule: renderPath.induct)
  case 1 then show ?case by simp
next
  case (2 s) then show ?case by (simp add: conv_segment_end)
next
  case (3 s t ss)
  then show ?case by (simp add: conv_segment_dot)
qed


lemma bracket_not_digit: "\<not> isDigit (CHR ''['')"
  by (simp add: isDigit_def)

lemma digits_nobracket: "list_all isDigit ds \<Longrightarrow> CHR ''['' \<notin> set ds"
  using bracket_not_digit by (auto simp: list_all_iff)

lemma rm_cons: "c \<noteq> CHR ''['' \<Longrightarrow> removeArrayMarkers (c # r) = c # removeArrayMarkers r"
  by (cases r) auto

lemma rm_segment_dot:
  assumes "wfSegment s"
  shows "removeArrayMarkers (indexedOfSegment s @ CHR ''.'' # r)
         = fieldOfSegment s @ CHR ''.'' # removeArrayMarkers r"
proof (cases s)
  case (Plain k)
  with assms show ?thesis by (simp add: rm_key_append key_nobracket rm_cons)
next
  case (Coll k)
  with assms show ?thesis by (simp add: rm_key_append key_nobracket rm_cons)
next
  case (Indexed ds k)
  with assms have "removeArrayMarkers (k @ (CHR ''.'' # ds) @ CHR ''.'' # r)
     = k @ removeArrayMarkers ((CHR ''.'' # ds) @ CHR ''.'' # r)"
    by (simp add: rm_key_append key_nobracket)
  also have "removeArrayMarkers ((CHR ''.'' # ds) @ CHR ''.'' # r)
     = (CHR ''.'' # ds) @ removeArrayMarkers (CHR ''.'' # r)"
    using assms Indexed by (intro rm_key_append) (simp add: digits_nobracket)
  finally show ?thesis using Indexed by (simp add: rm_cons)
qed

lemma field_segment_nobracket: "wfSegment s \<Longrightarrow> CHR ''['' \<notin> set (fieldOfSegment s)"
  by (cases s) (auto dest: key_nobracket digits_nobracket)

lemma indexed_segment_end:
  assumes "wfSegment s"
  shows "removeArrayMarkers (indexedOfSegment s) = fieldOfSegment s"
proof (cases s)
  case (Plain k)
  with assms show ?thesis by (simp add: rm_nobracket key_nobracket)
next
  case (Coll k)
  with assms show ?thesis by (simp add: rm_nobracket key_nobracket)
next
  case (Indexed ds k)
  with assms show ?thesis using field_segment_nobracket [of s] by (simp add: rm_nobracket)
qed

lemma rm_path: "list_all wfSegment ss \<Longrightarrow> removeArrayMarkers (indexedPath ss) = fieldPath ss"
proof (induction ss rule: indexedPath.induct)
  case 1 then show ?case by simp
next
  case (2 s) then show ?case by (simp add: indexed_segment_end)
next
  case (3 s t ss)
  then show ?case by (simp add: rm_segment_dot)
qed

lemma fieldPath_nobracket: "list_all wfSegment ss \<Longrightarrow> CHR ''['' \<notin> set (fieldPath ss)"
  by (induction ss rule: fieldPath.induct) (auto dest: field_segment_nobracket)

lemma normalise_wf: "list_all wfSegment ss \<Longrightarrow>
   convertSearchPathToMongoField (renderPath ss) = fieldPath ss"
  by (simp add: convertSearchPathToMongoField_def conv_path rm_path)

text \<open>
  Claim C9, as stated: normalising a path twice gives the same string as normalising it once,
  for every path string. This fails for a string with two adjacent indexes: the first pass
  rewrites the outer index only and leaves an index that the second pass rewrites.
\<close>

theorem C9_normalise_not_idempotent:
  "convertSearchPathToMongoField ''[1][2]a'' = ''[2]a.1''
   \<and> convertSearchPathToMongoField (convertSearchPathToMongoField ''[1][2]a'') = ''a.2.1''"
  by (simp add: convertSearchPathToMongoField_def isDigit_def notDot_def)

text \<open>
  Claim C9, amended: for every path of the path grammar (dot-separated segments, each a
  non-empty key free of brackets and dots, optionally preceded by \<open>[]\<close> or \<open>[N]\<close>),
  normalising twice equals normalising once.
\<close>

theorem C9_normalise_idempotent:
  assumes "list_all wfSegment ss"
  shows "convertSearchPathToMongoField (convertSearchPathToMongoField (renderPath ss))
         = convertSearchPathToMongoField (renderPath ss)"
  using assms by (simp add: normalise_wf normalise_nobracket fieldPath_nobracket)

theorem C9_normalise_idempotent_witness:
  "list_all wfSegment
     [Coll ''element'', Indexed ''0'' ''target'', Coll ''product'', Plain ''element'']
   \<and> renderPath [Coll ''element'', Indexed ''0'' ''target'', Coll ''product'', Plain ''element'']
      = ''[]element.[0]target.[]product.element''
   \<and> convertSearchPathToMongoField
        (convertSearchPathToMongoField ''[]element.[0]target.[]product.element'')
     = convertSearchPathToMongoField ''[]element.[0]target.[]product.element''"
  using C9_normalise_idempotent
    [of "[Coll ''element'', Indexed ''0'' ''target'', Coll ''product'', Plain ''element'']"]
  by (simp add: isKeyChar_def isDigit_def)

subsection \<open>Merging the per-parameter documents\<close>

lemma lookupM_setKey: "lookupM (setKey k v m) k' = (if k' = k then Some v else lookupM m k')"
  by (induction m) (auto simp: lookupM_def)

lemma hasKey_lookupM: "hasKey m k = (lookupM m k \<noteq> None)"
  by (induction m) (auto simp: hasKey_def lookupM_def)

lemma hasKey_setKey: "hasKey (setKey k v m) k' = (k' = k \<or> hasKey m k')"
  by (simp add: hasKey_lookupM lookupM_setKey)

lemma mergeLoop_lookup:
  "mergeLoop from ands into = Inr (ands', into') \<Longrightarrow> lookupM into k = Some v \<Longrightarrow>
   lookupM into' k = Some v"
proof (induction "from" ands into rule: mergeLoop.induct)
  case (1 ands into)
  then show ?case by simp
next
  case (2 k0 v0 "from" ands into)
  show ?case
  proof (cases "k0 = ''$and''")
    case True
    with 2 show ?thesis by (auto split: bson.splits)
  next
    case False
    note ne = this
    show ?thesis
    proof (cases "hasKey into k0")
      case True
      with ne 2 show ?thesis by simp
    next
      case False
      with "2.prems"(2) have "k \<noteq> k0" by (auto simp: hasKey_lookupM)
      then have "lookupM (setKey k0 v0 into) k = Some v"
        using "2.prems"(2) by (simp add: lookupM_setKey)
      with ne False 2 show ?thesis by simp
    qed
  qed
qed

lemma mergeLoop_ands:
  "mergeLoop from ands into = Inr (ands', into') \<Longrightarrow> set ands \<subseteq> set ands'"
proof (induction "from" ands into rule: mergeLoop.induct)
  case (1 ands into)
  then show ?case by simp
next
  case (2 k0 v0 "from" ands into)
  then show ?case
    by (cases "k0 = ''$and''"; cases "hasKey into k0") (auto split: bson.splits)
qed

lemma mergeLoop_from:
  "mergeLoop from ands into = Inr (ands', into') \<Longrightarrow> distinct (map fst from) \<Longrightarrow>
   (k, v) \<in> set from \<Longrightarrow> k \<noteq> ''$and'' \<Longrightarrow>
   (hasKey into k \<longrightarrow> [(k, v)] \<in> set ands') \<and> (\<not> hasKey into k \<longrightarrow> lookupM into' k = Some v)"
proof (induction "from" ands into rule: mergeLoop.induct)
  case (1 ands into)
  then show ?case by simp
next
  case (2 k0 v0 "from" ands into)
  show ?case
  proof (cases "(k, v) = (k0, v0)")
    case True
    then have eq: "k0 = k" "v0 = v" by auto
    show ?thesis
    proof (cases "hasKey into k")
      case True
      with 2(4,7) eq have "mergeLoop from (ands @ [[(k, v)]]) into = Inr (ands', into')" by simp
      then have "[(k, v)] \<in> set ands'" using mergeLoop_ands by fastforce
      with True show ?thesis by simp
    next
      case False
      with 2(4,7) eq have "mergeLoop from ands (setKey k v into) = Inr (ands', into')" by simp
      then have "lookupM into' k = Some v"
        by (rule mergeLoop_lookup) (simp add: lookupM_setKey)
      with False show ?thesis by simp
    qed
  next
    case False
    with 2(6) have mem: "(k, v) \<in> set from" by auto
    from 2(5) have dis: "distinct (map fst from)" by simp
    from 2(5) mem have kne: "k \<noteq> k0" by (auto simp: image_iff)
    show ?thesis
    proof (cases "k0 = ''$and''")
      case True
      with 2(4) obtain bs where v0: "v0 = BDocs bs"
        and run: "mergeLoop from (ands @ bs) into = Inr (ands', into')"
        by (auto split: bson.splits)
      from 2(1) [OF True v0 run dis mem 2(7)] show ?thesis .
    next
      case False
      note ne = this
      show ?thesis
      proof (cases "hasKey into k0")
        case True
        with ne 2(4) have run: "mergeLoop from (ands @ [[(k0, v0)]]) into = Inr (ands', into')"
          by simp
        from 2(2) [OF ne True run dis mem 2(7)] show ?thesis .
      next
        case False
        with ne 2(4) have run: "mergeLoop from ands (setKey k0 v0 into) = Inr (ands', into')"
          by simp
        from 2(3) [OF ne False run dis mem 2(7)] kne show ?thesis
          by (simp add: hasKey_setKey)
      qed
    qed
  qed
qed

lemma mergeLoop_branches:
  "mergeLoop from ands into = Inr (ands', into') \<Longrightarrow>
   (''$and'', BDocs bs) \<in> set from \<Longrightarrow> set bs \<subseteq> set ands'"
proof (induction "from" ands into rule: mergeLoop.induct)
  case (1 ands into)
  then show ?case by simp
next
  case (2 k0 v0 "from" ands into)
  show ?case
  proof (cases "k0 = ''$and''")
    case True
    with 2(4) obtain bs0 where v0: "v0 = BDocs bs0"
      and run: "mergeLoop from (ands @ bs0) into = Inr (ands', into')"
      by (auto split: bson.splits)
    show ?thesis
    proof (cases "(''$and'', BDocs bs) = (k0, v0)")
      case True
      with v0 have "bs0 = bs" by simp
      with run have "set (ands @ bs) \<subseteq> set ands'" using mergeLoop_ands by blast
      then show ?thesis by simp
    next
      case False
      with 2(5) have "(''$and'', BDocs bs) \<in> set from" by auto
      from 2(1) [OF True v0 run this] show ?thesis .
    qed
  next
    case False
    with 2(5) have mem: "(''$and'', BDocs bs) \<in> set from" by auto
    show ?thesis
    proof (cases "hasKey into k0")
      case True
      with False 2(4) have run: "mergeLoop from (ands @ [[(k0, v0)]]) into = Inr (ands', into')"
        by simp
      from 2(2) [OF False True run mem] show ?thesis .
    next
      case F: False
      with False 2(4) have run: "mergeLoop from ands (setKey k0 v0 into) = Inr (ands', into')"
        by simp
      from 2(3) [OF False F run mem] show ?thesis .
    qed
  qed
qed


lemma mergeLoop_and_key:
  "mergeLoop from ands into = Inr (ands', into') \<Longrightarrow>
   lookupM into' ''$and'' = lookupM into ''$and''"
proof (induction "from" ands into rule: mergeLoop.induct)
  case (1 ands into)
  then show ?case by simp
next
  case (2 k0 v0 "from" ands into)
  then show ?case
    by (cases "k0 = ''$and''"; cases "hasKey into k0")
       (auto split: bson.splits simp: lookupM_setKey)
qed

lemma mergeLoop_total:
  "\<forall>v. (''$and'', v) \<in> set from \<longrightarrow> (\<exists>bs. v = BDocs bs) \<Longrightarrow>
   \<exists>res. mergeLoop from ands into = Inr res"
proof (induction "from" ands into rule: mergeLoop.induct)
  case (1 ands into)
  then show ?case by simp
next
  case (2 k0 v0 "from" ands into)
  show ?case
  proof (cases "k0 = ''$and''")
    case True
    with "2.prems" obtain bs where v0: "v0 = BDocs bs" by auto
    from "2.prems" have rest: "\<forall>v. (''$and'', v) \<in> set from \<longrightarrow> (\<exists>bs. v = BDocs bs)" by auto
    from "2.IH"(1) [OF True v0 rest] True v0 show ?thesis by simp
  next
    case False
    from "2.prems" have rest: "\<forall>v. (''$and'', v) \<in> set from \<longrightarrow> (\<exists>bs. v = BDocs bs)" by auto
    show ?thesis
    proof (cases "hasKey into k0")
      case True
      from "2.IH"(2) [OF False True rest] False True show ?thesis by simp
    next
      case F: False
      from "2.IH"(3) [OF False F rest] False F show ?thesis by simp
    qed
  qed
qed

text \<open>The shape of a successful merge.\<close>

lemma merge_Inr:
  assumes "merge into from = Inr r"
  obtains ands' into' where
    "mergeLoop from (andList into) into = Inr (ands', into')"
    "r = (if ands' \<noteq> [] then setKey ''$and'' (BDocs ands') into' else into')"
proof -
  from assms obtain ands0 where a0:
    "(case lookupM into ''$and'' of None \<Rightarrow> Inr [] | Some (BDocs intoAnd) \<Rightarrow> Inr intoAnd
      | Some _ \<Rightarrow> Inl (RuntimeError ''interface conversion'')) = (Inr ands0 :: panic + bsonM list)"
    by (auto simp: merge_def split: sum.splits)
  then have ands0: "ands0 = andList into"
    by (auto simp: andList_def split: option.splits bson.splits)
  from assms a0 obtain ands' into' where
    run: "mergeLoop from ands0 into = Inr (ands', into')"
    and r: "r = (if ands' \<noteq> [] then setKey ''$and'' (BDocs ands') into' else into')"
    by (auto simp: merge_def split: sum.splits prod.splits if_splits)
  from that [of ands' into'] run r ands0 show ?thesis by simp
qed

lemma andList_setKey: "andList (setKey ''$and'' (BDocs a) m) = a"
  by (simp add: andList_def lookupM_setKey)

lemma merge_lookup:
  assumes "merge into from = Inr r" "k \<noteq> ''$and''" "lookupM into k = Some v"
  shows "lookupM r k = Some v"
proof -
  from assms(1) obtain ands' into' where
    run: "mergeLoop from (andList into) into = Inr (ands', into')"
    and r: "r = (if ands' \<noteq> [] then setKey ''$and'' (BDocs ands') into' else into')"
    by (rule merge_Inr)
  from mergeLoop_lookup [OF run assms(3)] r assms(2) show ?thesis
    by (simp add: lookupM_setKey)
qed

lemma merge_andList:
  assumes "merge into from = Inr r"
  shows "set (andList into) \<subseteq> set (andList r)"
proof -
  from assms obtain ands' into' where
    run: "mergeLoop from (andList into) into = Inr (ands', into')"
    and r: "r = (if ands' \<noteq> [] then setKey ''$and'' (BDocs ands') into' else into')"
    by (rule merge_Inr)
  from mergeLoop_ands [OF run] have sub: "set (andList into) \<subseteq> set ands'" .
  show ?thesis
  proof (cases "ands' = []")
    case True
    with sub show ?thesis by simp
  next
    case False
    with r sub show ?thesis by (simp add: andList_setKey)
  qed
qed

lemma merge_from:
  assumes "merge into from = Inr r" "distinct (map fst from)" "(k, v) \<in> set from"
    "k \<noteq> ''$and''"
  shows "(hasKey into k \<longrightarrow> [(k, v)] \<in> set (andList r) \<and> lookupM r k = lookupM into k)
         \<and> (\<not> hasKey into k \<longrightarrow> lookupM r k = Some v)"
proof -
  from assms(1) obtain ands' into' where
    run: "mergeLoop from (andList into) into = Inr (ands', into')"
    and r: "r = (if ands' \<noteq> [] then setKey ''$and'' (BDocs ands') into' else into')"
    by (rule merge_Inr)
  note step = mergeLoop_from [OF run assms(2,3,4)]
  have look: "lookupM r k = lookupM into' k"
    using r assms(4) by (simp add: lookupM_setKey)
  show ?thesis
  proof (cases "hasKey into k")
    case True
    with step have mem: "[(k, v)] \<in> set ands'" by simp
    then have "ands' \<noteq> []" by auto
    with r mem have "[(k, v)] \<in> set (andList r)" by (simp add: andList_setKey)
    moreover from True obtain w where w: "lookupM into k = Some w"
      by (auto simp: hasKey_lookupM)
    from merge_lookup [OF assms(1) assms(4) w] w have "lookupM r k = lookupM into k" by simp
    ultimately show ?thesis using True by simp
  next
    case False
    with step look show ?thesis by simp
  qed
qed

lemma merge_branches:
  assumes "merge into from = Inr r" "(''$and'', BDocs bs) \<in> set from"
  shows "set bs \<subseteq> set (andList r)"
proof -
  from assms(1) obtain ands' into' where
    run: "mergeLoop from (andList into) into = Inr (ands', into')"
    and r: "r = (if ands' \<noteq> [] then setKey ''$and'' (BDocs ands') into' else into')"
    by (rule merge_Inr)
  from mergeLoop_branches [OF run assms(2)] have sub: "set bs \<subseteq> set ands'" .
  show ?thesis
  proof (cases "ands' = []")
    case True
    with sub show ?thesis by simp
  next
    case False
    with r sub show ?thesis by (simp add: andList_setKey)
  qed
qed


lemma merge_total:
  assumes "lookupM into ''$and'' = None \<or> (\<exists>a. lookupM into ''$and'' = Some (BDocs a))"
    and "\<forall>v. (''$and'', v) \<in> set from \<longrightarrow> (\<exists>bs. v = BDocs bs)"
  shows "\<exists>r. merge into from = Inr r
             \<and> (lookupM r ''$and'' = None \<or> (\<exists>a. lookupM r ''$and'' = Some (BDocs a)))"
proof -
  from mergeLoop_total [OF assms(2), of "andList into" into]
  obtain ands' into' where run: "mergeLoop from (andList into) into = Inr (ands', into')"
    by auto
  from mergeLoop_and_key [OF run] assms(1)
  have key: "lookupM into' ''$and'' = None \<or> (\<exists>a. lookupM into' ''$and'' = Some (BDocs a))"
    by simp
  from assms(1) run have "merge into from
      = Inr (if ands' \<noteq> [] then setKey ''$and'' (BDocs ands') into' else into')"
    by (auto simp: merge_def andList_def)
  with key show ?thesis by (auto simp: lookupM_setKey)
qed

lemma merge_keeps:
  assumes "merge into from = Inr r" "keeps into k v" "k \<noteq> ''$and''"
  shows "keeps r k v"
  using assms merge_lookup [OF assms(1) assms(3)] merge_andList [OF assms(1)]
  by (auto simp: keeps_def)

lemma mergeAll_keeps_old:
  "mergeAll r0 docs = Inr r \<Longrightarrow> keeps r0 k v \<Longrightarrow> k \<noteq> ''$and'' \<Longrightarrow> keeps r k v"
proof (induction docs arbitrary: r0)
  case Nil
  then show ?case by simp
next
  case (Cons d ds)
  from Cons.prems(1) obtain r1 where m: "merge r0 d = Inr r1" and rest: "mergeAll r1 ds = Inr r"
    by (auto split: sum.splits)
  from merge_keeps [OF m Cons.prems(2,3)] have "keeps r1 k v" .
  from Cons.IH [OF rest this Cons.prems(3)] show ?case .
qed

lemma mergeAll_andList:
  "mergeAll r0 docs = Inr r \<Longrightarrow> set (andList r0) \<subseteq> set (andList r)"
proof (induction docs arbitrary: r0)
  case Nil
  then show ?case by simp
next
  case (Cons d ds)
  from Cons.prems(1) obtain r1 where m: "merge r0 d = Inr r1" and rest: "mergeAll r1 ds = Inr r"
    by (auto split: sum.splits)
  from merge_andList [OF m] Cons.IH [OF rest] show ?case by blast
qed

lemma mergeAll_keeps:
  "mergeAll r0 docs = Inr r \<Longrightarrow> \<forall>d\<in>set docs. distinct (map fst d) \<Longrightarrow>
   d \<in> set docs \<Longrightarrow> (k, v) \<in> set d \<Longrightarrow> k \<noteq> ''$and'' \<Longrightarrow> keeps r k v"
proof (induction docs arbitrary: r0)
  case Nil
  then show ?case by simp
next
  case (Cons d0 ds)
  from Cons.prems(1) obtain r1 where m: "merge r0 d0 = Inr r1" and rest: "mergeAll r1 ds = Inr r"
    by (auto split: sum.splits)
  show ?case
  proof (cases "d = d0")
    case True
    with Cons.prems have dis: "distinct (map fst d0)" and mem: "(k, v) \<in> set d0" by auto
    from merge_from [OF m dis mem Cons.prems(5)] have "keeps r1 k v"
      by (auto simp: keeps_def)
    from mergeAll_keeps_old [OF rest this Cons.prems(5)] show ?thesis .
  next
    case False
    with Cons.prems have "d \<in> set ds" "\<forall>d\<in>set ds. distinct (map fst d)" by auto
    from Cons.IH [OF rest this(2) this(1) Cons.prems(4,5)] show ?thesis .
  qed
qed

lemma mergeAll_branches:
  "mergeAll r0 docs = Inr r \<Longrightarrow> d \<in> set docs \<Longrightarrow> (''$and'', BDocs bs) \<in> set d \<Longrightarrow>
   set bs \<subseteq> set (andList r)"
proof (induction docs arbitrary: r0)
  case Nil
  then show ?case by simp
next
  case (Cons d0 ds)
  from Cons.prems(1) obtain r1 where m: "merge r0 d0 = Inr r1" and rest: "mergeAll r1 ds = Inr r"
    by (auto split: sum.splits)
  show ?case
  proof (cases "d = d0")
    case True
    with Cons.prems(3) merge_branches [OF m] have "set bs \<subseteq> set (andList r1)" by simp
    with mergeAll_andList [OF rest] show ?thesis by blast
  next
    case False
    with Cons.prems have "d \<in> set ds" by auto
    from Cons.IH [OF rest this Cons.prems(3)] show ?thesis .
  qed
qed

lemma mergeAll_total:
  "lookupM r0 ''$and'' = None \<or> (\<exists>a. lookupM r0 ''$and'' = Some (BDocs a)) \<Longrightarrow>
   \<forall>d\<in>set docs. \<forall>v. (''$and'', v) \<in> set d \<longrightarrow> (\<exists>bs. v = BDocs bs) \<Longrightarrow>
   \<exists>r. mergeAll r0 docs = Inr r"
proof (induction docs arbitrary: r0)
  case Nil
  then show ?case by simp
next
  case (Cons d ds)
  from Cons.prems(2) have hd: "\<forall>v. (''$and'', v) \<in> set d \<longrightarrow> (\<exists>bs. v = BDocs bs)"
    and tl: "\<forall>d\<in>set ds. \<forall>v. (''$and'', v) \<in> set d \<longrightarrow> (\<exists>bs. v = BDocs bs)" by auto
  from merge_total [OF Cons.prems(1) hd] obtain r1 where
    m: "merge r0 d = Inr r1"
    and k: "lookupM r1 ''$and'' = None \<or> (\<exists>a. lookupM r1 ''$and'' = Some (BDocs a))"
    by blast
  from Cons.IH [OF k tl] m show ?case by simp
qed

text \<open>
  Claim C2: merging the per-parameter documents never silently overwrites a key. One merge
  step leaves the value of a key that is already present untouched and moves the incoming
  pair into the conjunction list of the result, and inserts a pair whose key is new. For a
  list of documents (each with distinct keys, and with a list of documents under an
  incoming \<open>$and\<close>, as the builders produce them) the merge succeeds, every incoming pair
  is kept by the result, at the top level or as a branch of the top-level \<open>$and\<close>, and the
  branches of every incoming \<open>$and\<close> are branches of the top-level \<open>$and\<close>.
\<close>

theorem C2_merge_never_overwrites:
  assumes "\<forall>d\<in>set docs. distinct (map fst d)"
    and "\<forall>d\<in>set docs. \<forall>v. (''$and'', v) \<in> set d \<longrightarrow> (\<exists>bs. v = BDocs bs)"
  shows
    "(\<exists>r. mergeAll [] docs = Inr r
          \<and> (\<forall>d\<in>set docs. \<forall>(k, v)\<in>set d. k \<noteq> ''$and'' \<longrightarrow> keeps r k v)
          \<and> (\<forall>d\<in>set docs. \<forall>bs. (''$and'', BDocs bs) \<in> set d \<longrightarrow> set bs \<subseteq> set (andList r)))
     \<and> (\<forall>into from r k v.
          merge into from = Inr r \<and> distinct (map fst from) \<and> (k, v) \<in> set from \<and> k \<noteq> ''$and''
          \<longrightarrow> (hasKey into k \<longrightarrow> [(k, v)] \<in> set (andList r) \<and> lookupM r k = lookupM into k)
              \<and> (\<not> hasKey into k \<longrightarrow> lookupM r k = Some v))"
proof -
  have "lookupM [] ''$and'' = None \<or> (\<exists>a. lookupM [] ''$and'' = Some (BDocs a))"
    by (simp add: lookupM_def)
  from mergeAll_total [OF this assms(2)] obtain r where r: "mergeAll [] docs = Inr r" by blast
  have kept: "\<forall>d\<in>set docs. \<forall>(k, v)\<in>set d. k \<noteq> ''$and'' \<longrightarrow> keeps r k v"
    using mergeAll_keeps [OF r assms(1)] by blast
  have branches: "\<forall>d\<in>set docs. \<forall>bs. (''$and'', BDocs bs) \<in> set d \<longrightarrow> set bs \<subseteq> set (andList r)"
    using mergeAll_branches [OF r] by blast
  have step: "\<forall>into from r k v.
          merge into from = Inr r \<and> distinct (map fst from) \<and> (k, v) \<in> set from \<and> k \<noteq> ''$and''
          \<longrightarrow> (hasKey into k \<longrightarrow> [(k, v)] \<in> set (andList r) \<and> lookupM r k = lookupM into k)
              \<and> (\<not> hasKey into k \<longrightarrow> lookupM r k = Some v)"
    using merge_from by blast
  from r kept branches step show ?thesis by blast
qed

theorem C2_merge_never_overwrites_witness:
  "createParamObjects [] searcherCI
        [TokenP (genderExample ''male''), TokenP (genderExample ''female'')]
       = Inr [[(''gender'', BRegex ''^male$'' ''i'')], [(''gender'', BRegex ''^female$'' ''i'')]]
   \<and> createQueryObjectFromParams [] searcherCI
        [TokenP (genderExample ''male''), TokenP (genderExample ''female'')]
       = Inr [(''gender'', BRegex ''^male$'' ''i''),
              (''$and'', BDocs [[(''gender'', BRegex ''^female$'' ''i'')]])]
   \<and> keeps [(''gender'', BRegex ''^male$'' ''i''),
             (''$and'', BDocs [[(''gender'', BRegex ''^female$'' ''i'')]])]
        ''gender'' (BRegex ''^female$'' ''i'')
   \<and> keeps [(''gender'', BRegex ''^male$'' ''i''),
             (''$and'', BDocs [[(''gender'', BRegex ''^female$'' ''i'')]])]
        ''gender'' (BRegex ''^male$'' ''i'')"
proof -
  let ?docs = "[[(''gender'', BRegex ''^male$'' ''i'')], [(''gender'', BRegex ''^female$'' ''i'')]]"
  let ?q = "[(''gender'', BRegex ''^male$'' ''i''),
             (''$and'', BDocs [[(''gender'', BRegex ''^female$'' ''i'')]])]"
  have h1: "\<forall>d\<in>set ?docs. distinct (map fst d)" by simp
  have h2: "\<forall>d\<in>set ?docs. \<forall>v. (''$and'', v) \<in> set d \<longrightarrow> (\<exists>bs. v = BDocs bs)" by simp
  have objs: "createParamObjects [] searcherCI
        [TokenP (genderExample ''male''), TokenP (genderExample ''female'')] = Inr ?docs"
    by code_simp
  have run: "mergeAll [] ?docs = Inr ?q" by code_simp
  note t = C2_merge_never_overwrites [OF h1 h2, THEN conjunct1]
  from t obtain r where
    r: "mergeAll [] ?docs = Inr r"
    and kept: "\<forall>d\<in>set ?docs. \<forall>(k, v)\<in>set d. k \<noteq> ''$and'' \<longrightarrow> keeps r k v"
    by (elim exE conjE)
  from r run have rq: "r = ?q" by simp
  from kept have "keeps r ''gender'' (BRegex ''^female$'' ''i'')"
    and "keeps r ''gender'' (BRegex ''^male$'' ''i'')" by simp_all
  with rq have k1: "keeps ?q ''gender'' (BRegex ''^female$'' ''i'')"
    and k2: "keeps ?q ''gender'' (BRegex ''^male$'' ''i'')" by simp_all
  have compiled: "createQueryObjectFromParams [] searcherCI
        [TokenP (genderExample ''male''), TokenP (genderExample ''female'')] = Inr ?q"
    unfolding createQueryObjectFromParams_def objs bindP_def using run by simp
  show ?thesis
    apply (intro conjI)
       apply (rule objs)
      apply (rule compiled)
     apply (rule k1)
    apply (rule k2)
    done
qed

subsection \<open>OR over paths\<close>

lemma orPathsLoop_step:
  assumes "objFunc p = Inr d" "orTyped d"
  shows "orPathsLoop objFunc (p # ps) acc = orPathsLoop objFunc ps (acc @ orBranches d)"
  using assms by (cases d rule: orBranches.cases) (auto simp: lookupM_def)

lemma orPathsLoop_spec:
  assumes "\<forall>p\<in>set ps. \<exists>d. objFunc p = Inr d \<and> orTyped d"
  shows "orPathsLoop objFunc ps acc
         = Inr (acc @ concat (map (\<lambda>p. orBranches (projr (objFunc p))) ps))"
  using assms
proof (induction ps arbitrary: acc)
  case Nil
  show ?case by simp
next
  case (Cons p ps)
  then obtain d where d: "objFunc p = Inr d" "orTyped d" by auto
  from Cons.prems have rest: "\<forall>p\<in>set ps. \<exists>d. objFunc p = Inr d \<and> orTyped d" by simp
  show ?case
    using orPathsLoop_step [of objFunc p d ps acc] Cons.IH [OF rest, of "acc @ orBranches d"] d
    by simp
qed

lemma orPaths_spec:
  assumes "\<forall>p\<in>set ps. \<exists>d. objFunc p = Inr d \<and> orTyped d"
  shows "orPaths objFunc ps = Inr (disjunctionOf (map (\<lambda>p. projr (objFunc p)) ps))"
  using orPathsLoop_spec [OF assms, of "[]"]
  by (simp add: orPaths_def disjunctionOf_def Let_def comp_def)

lemma satisfies_branches:
  "(\<exists>r\<in>set (orBranches d). satisfies leaf r) = satisfies leaf d"
  by (cases d rule: orBranches.cases) (auto simp: satisfies.simps [of leaf "[(k, BDocs bs)]" for k bs])

lemma satisfies_or:
  "satisfies leaf [(''$or'', BDocs rs)] = (\<exists>r\<in>set rs. satisfies leaf r)"
  by (simp add: satisfies.simps [of leaf "[(''$or'', BDocs rs)]"])

lemma satisfies_disjunctionOf:
  "satisfies leaf (disjunctionOf ds) = (\<exists>d\<in>set ds. satisfies leaf d)"
proof -
  let ?rs = "concat (map orBranches ds)"
  have flat: "(\<exists>r\<in>set ?rs. satisfies leaf r) = (\<exists>d\<in>set ds. satisfies leaf d)"
    using satisfies_branches [of _ leaf] by auto
  show ?thesis
  proof (cases "length ?rs = 1")
    case True
    then obtain r where r: "?rs = [r]" by (cases ?rs) auto
    then have "disjunctionOf ds = r" by (simp add: disjunctionOf_def)
    moreover have "(\<exists>x\<in>set ?rs. satisfies leaf x) = satisfies leaf r" using r by simp
    ultimately show ?thesis using flat by simp
  next
    case False
    then have "disjunctionOf ds = [(''$or'', BDocs ?rs)]" by (simp add: disjunctionOf_def)
    then show ?thesis using flat by (simp add: satisfies_or)
  qed
qed

lemma disjunctionOf_single:
  "disjunctionOf [d] = (case orBranches d of [b] \<Rightarrow> b | bs \<Rightarrow> [(''$or'', BDocs bs)])"
  by (cases "orBranches d" rule: list.exhaust[case_product list.exhaust])
     (auto simp: disjunctionOf_def split: list.splits)

lemma disjunctionOf_single_as_is:
  assumes "\<And>b. d \<noteq> [(''$or'', BDocs [b])]"
  shows "disjunctionOf [d] = d"
proof (cases d rule: orBranches.cases)
  case (1 k branches)
  show ?thesis
  proof (cases "k = ''$or''")
    case True
    with 1 assms have "length branches \<noteq> 1"
      by (cases branches) auto
    with True 1 show ?thesis by (simp add: disjunctionOf_def)
  next
    case False
    with 1 show ?thesis by (simp add: disjunctionOf_def)
  qed
qed (simp_all add: disjunctionOf_def)

lemma disjunctionOf_single_branch:
  "disjunctionOf [[(''$or'', BDocs [b])]] = b"
  by (simp add: disjunctionOf_def)

text \<open>
  Claim C3, as stated: with a single path the predicate of that path is returned as it is.
  This fails for a builder whose document is a disjunction with one branch: \<open>orPaths\<close>
  flattens it and returns the branch, not the document of the builder.
\<close>

theorem C3_single_branch_is_unwrapped:
  "singleBranchBuilder \<lparr>Path = ''active'', Type = ''boolean''\<rparr>
     = Inr [(''$or'', BDocs [[(''active'', BBool True)]])]
   \<and> orPaths singleBranchBuilder [\<lparr>Path = ''active'', Type = ''boolean''\<rparr>]
     = Inr [(''active'', BBool True)]"
  by (simp add: orPaths_def lookupM_def singleBranchBuilder_def)

text \<open>
  Claim C3, amended: for paths \<open>P1 \<dots> Pk\<close> and a builder that yields a document for each
  path (a document whose only key is \<open>$or\<close> carrying a list of documents or nil), the
  emitted predicate is the disjunction of the documents in the sense of the specification:
  the branches of every document that is only a \<open>$or\<close> are flattened into one list, and a
  list of one element is emitted without a wrapper. It is satisfied exactly when the
  predicate of some path is. With a single path the document of the builder is returned as
  it is, unless it is a \<open>$or\<close> with exactly one branch, in which case that branch is
  returned.
\<close>

theorem C3_or_over_paths:
  assumes "\<forall>p\<in>set paths. \<exists>d. pred p = Inr d \<and> orTyped d"
  shows
    "orPaths pred paths = Inr (disjunctionOf (map (\<lambda>p. projr (pred p)) paths))
     \<and> (\<forall>leaf. satisfies leaf (disjunctionOf (map (\<lambda>p. projr (pred p)) paths))
                 = (\<exists>p\<in>set paths. satisfies leaf (projr (pred p))))
     \<and> (\<forall>p d. paths = [p] \<and> pred p = Inr d \<and> (\<forall>b. d \<noteq> [(''$or'', BDocs [b])])
           \<longrightarrow> orPaths pred paths = Inr d)
     \<and> (\<forall>p b. paths = [p] \<and> pred p = Inr [(''$or'', BDocs [b])]
           \<longrightarrow> orPaths pred paths = Inr b)"
proof -
  have spec: "orPaths pred paths = Inr (disjunctionOf (map (\<lambda>p. projr (pred p)) paths))"
    using assms by (rule orPaths_spec)
  have sem: "\<forall>leaf. satisfies leaf (disjunctionOf (map (\<lambda>p. projr (pred p)) paths))
                 = (\<exists>p\<in>set paths. satisfies leaf (projr (pred p)))"
    by (simp add: satisfies_disjunctionOf)
  have asis: "\<forall>p d. paths = [p] \<and> pred p = Inr d \<and> (\<forall>b. d \<noteq> [(''$or'', BDocs [b])])
           \<longrightarrow> orPaths pred paths = Inr d"
    using spec by (auto simp: disjunctionOf_single_as_is)
  have branch: "\<forall>p b. paths = [p] \<and> pred p = Inr [(''$or'', BDocs [b])]
           \<longrightarrow> orPaths pred paths = Inr b"
    using spec by (auto simp: disjunctionOf_single_branch)
  from spec sem asis branch show ?thesis by blast
qed

theorem C3_or_over_paths_witness:
  "orPaths (stringSingle searcherCI (stringExample ''name'' [] ''Smi''))
         [\<lparr>Path = ''[]name'', Type = ''HumanName''\<rparr>, \<lparr>Path = ''alias'', Type = ''string''\<rparr>]
       = Inr [(''$or'', BDocs
               [[(''name.text'', BRegex ''^Smi'' ''i'')],
                [(''name.family'', BRegex ''^Smi'' ''i'')],
                [(''name.given'', BRegex ''^Smi'' ''i'')],
                [(''alias'', BRegex ''^Smi$'' ''i'')]])]"
proof -
  let ?f = "stringSingle searcherCI (stringExample ''name'' [] ''Smi'')"
  let ?p1 = "\<lparr>Path = ''[]name'', Type = ''HumanName''\<rparr>"
  let ?p2 = "\<lparr>Path = ''alias'', Type = ''string''\<rparr>"
  have f1: "?f ?p1 = Inr [(''$or'', BDocs
               [[(''name.text'', BRegex ''^Smi'' ''i'')],
                [(''name.family'', BRegex ''^Smi'' ''i'')],
                [(''name.given'', BRegex ''^Smi'' ''i'')]])]"
    by code_simp
  have f2: "?f ?p2 = Inr [(''alias'', BRegex ''^Smi$'' ''i'')]"
    by code_simp
  have h: "\<forall>p\<in>set [?p1, ?p2]. \<exists>d. ?f p = Inr d \<and> orTyped d"
    using f1 f2 by simp
  have "orPaths ?f [?p1, ?p2] = Inr (disjunctionOf (map (\<lambda>p. projr (?f p)) [?p1, ?p2]))"
    using C3_or_over_paths [OF h] by blast
  then have "orPaths ?f [?p1, ?p2] = Inr [(''$or'', BDocs
               [[(''name.text'', BRegex ''^Smi'' ''i'')],
                [(''name.family'', BRegex ''^Smi'' ''i'')],
                [(''name.given'', BRegex ''^Smi'' ''i'')],
                [(''alias'', BRegex ''^Smi$'' ''i'')]])]"
    using f1 f2 by (simp add: disjunctionOf_def)
  then show ?thesis .
qed

subsection \<open>Projection onto bracket-free paths\<close>

lemma lastMarker_none: "CHR ''['' \<notin> set s \<Longrightarrow> lastMarkerOnLine s = None"
  by (induction s rule: lastMarkerOnLine.induct) auto

lemma pathRegexFind_none: "CHR ''['' \<notin> set s \<Longrightarrow> pathRegexFind s = None"
  by (induction s) (auto simp: lastMarker_none simp del: lastMarkerOnLine.simps)

lemma buildBSON_plain:
  "CHR ''['' \<notin> set path \<Longrightarrow> buildBSON path (BDoc kvs) = buildFields path kvs []"
  by (simp add: conv_nobracket normalise_nobracket pathRegexFind_none)

lemma buildBSON_scalar:
  "buildBSON path (BString s) = Inr [(convertSearchPathToMongoField path, BString s)]"
  "buildBSON path (BRegex r opts) = Inr [(convertSearchPathToMongoField path, BRegex r opts)]"
  "buildBSON path (BBool b) = Inr [(convertSearchPathToMongoField path, BBool b)]"
  by simp_all

lemma operator_keys:
  "isQueryOperator ''$or''" "\<not> isQueryOperator ''__from''" "\<not> isQueryOperator ''__to''"
  by (simp_all add: isQueryOperator_def)

subsection \<open>Date parameters\<close>

lemma dateSelector_table:
  "dateSelector (d\<lparr>Prefix := EQ\<rparr>) =
     Inr [(''__from'', BDoc [(''$gte'', BTime (RangeLowIncl (Date d)))]),
          (''__to'', BDoc [(''$lte'', BTime (RangeHighExcl (Date d)))])]"
  "dateSelector (d\<lparr>Prefix := GT\<rparr>) =
     Inr [(''__to'', BDoc [(''$gt'', BTime (RangeHighExcl (Date d)))])]"
  "dateSelector (d\<lparr>Prefix := LT\<rparr>) =
     Inr [(''__from'', BDoc [(''$lt'', BTime (RangeLowIncl (Date d)))])]"
  "dateSelector (d\<lparr>Prefix := GE\<rparr>) =
     Inr [(''$or'', BDocs
            [[(''__to'', BDoc [(''$gte'', BTime (RangeHighExcl (Date d)))])],
             [(''__from'', BDoc [(''$gte'', BTime (RangeLowIncl (Date d)))])]])]"
  "dateSelector (d\<lparr>Prefix := LE\<rparr>) =
     Inr [(''$or'', BDocs
            [[(''__from'', BDoc [(''$lte'', BTime (RangeLowIncl (Date d)))])],
             [(''__to'', BDoc [(''$lte'', BTime (RangeHighExcl (Date d)))])]])]"
  "dateSelector (d\<lparr>Prefix := SA\<rparr>) =
     Inr [(''__from'', BDoc [(''$gt'', BTime (RangeHighExcl (Date d)))])]"
  "dateSelector (d\<lparr>Prefix := EB\<rparr>) =
     Inr [(''__to'', BDoc [(''$lt'', BTime (RangeLowIncl (Date d)))])]"
  by (simp_all add: dateSelector_def)

lemma dateSingle_date:
  "Type p = ''date'' \<or> Type p = ''dateTime'' \<Longrightarrow>
   dateSingle d p = bindP (dateSelector d) (\<lambda>sel. buildBSON (Path p) (BDoc sel))"
  by (auto simp: dateSingle_def)

lemma dateSingle_timing:
  "ty = ''date'' \<or> ty = ''dateTime'' \<Longrightarrow>
   dateSingle d \<lparr>Path = path, Type = ''Timing''\<rparr>
     = dateSingle d \<lparr>Path = path @ ''.event'', Type = ty\<rparr>"
  by (auto simp: dateSingle_def)

lemmas date_emit_simps =
  createDateQueryObject_def orPaths_def dateSingle_def dateSelector_def bindP_def
  buildBSON_plain lookupM_def operator_keys

lemma date_emit_eq:
  assumes "CHR ''['' \<notin> set path" "ty = ''date'' \<or> ty = ''dateTime''"
  shows "createDateQueryObject m (d\<lparr>Prefix := EQ, Paths := [\<lparr>Path = path, Type = ty\<rparr>]\<rparr>)
     = Inr [(path @ ''.__from'', BDoc [(''$gte'', BTime (RangeLowIncl (Date d)))]),
            (path @ ''.__to'', BDoc [(''$lte'', BTime (RangeHighExcl (Date d)))])]"
  using assms by (auto simp add: date_emit_simps simp del: buildBSON.simps)

lemma date_emit_gt:
  assumes "CHR ''['' \<notin> set path" "ty = ''date'' \<or> ty = ''dateTime''"
  shows "createDateQueryObject m (d\<lparr>Prefix := GT, Paths := [\<lparr>Path = path, Type = ty\<rparr>]\<rparr>)
     = Inr [(path @ ''.__to'', BDoc [(''$gt'', BTime (RangeHighExcl (Date d)))])]"
  using assms by (auto simp add: date_emit_simps simp del: buildBSON.simps)

lemma date_emit_lt:
  assumes "CHR ''['' \<notin> set path" "ty = ''date'' \<or> ty = ''dateTime''"
  shows "createDateQueryObject m (d\<lparr>Prefix := LT, Paths := [\<lparr>Path = path, Type = ty\<rparr>]\<rparr>)
     = Inr [(path @ ''.__from'', BDoc [(''$lt'', BTime (RangeLowIncl (Date d)))])]"
  using assms by (auto simp add: date_emit_simps simp del: buildBSON.simps)

lemma date_emit_ge:
  assumes "CHR ''['' \<notin> set path" "ty = ''date'' \<or> ty = ''dateTime''"
  shows "createDateQueryObject m (d\<lparr>Prefix := GE, Paths := [\<lparr>Path = path, Type = ty\<rparr>]\<rparr>)
     = Inr [(''$or'', BDocs
         [[(path @ ''.__to'', BDoc [(''$gte'', BTime (RangeHighExcl (Date d)))])],
          [(path @ ''.__from'', BDoc [(''$gte'', BTime (RangeLowIncl (Date d)))])]])]"
  using assms by (auto simp add: date_emit_simps simp del: buildBSON.simps)

lemma date_emit_le:
  assumes "CHR ''['' \<notin> set path" "ty = ''date'' \<or> ty = ''dateTime''"
  shows "createDateQueryObject m (d\<lparr>Prefix := LE, Paths := [\<lparr>Path = path, Type = ty\<rparr>]\<rparr>)
     = Inr [(''$or'', BDocs
         [[(path @ ''.__from'', BDoc [(''$lte'', BTime (RangeLowIncl (Date d)))])],
          [(path @ ''.__to'', BDoc [(''$lte'', BTime (RangeHighExcl (Date d)))])]])]"
  using assms by (auto simp add: date_emit_simps simp del: buildBSON.simps)

lemma date_emit_sa:
  assumes "CHR ''['' \<notin> set path" "ty = ''date'' \<or> ty = ''dateTime''"
  shows "createDateQueryObject m (d\<lparr>Prefix := SA, Paths := [\<lparr>Path = path, Type = ty\<rparr>]\<rparr>)
     = Inr [(path @ ''.__from'', BDoc [(''$gt'', BTime (RangeHighExcl (Date d)))])]"
  using assms by (auto simp add: date_emit_simps simp del: buildBSON.simps)

lemma date_emit_eb:
  assumes "CHR ''['' \<notin> set path" "ty = ''date'' \<or> ty = ''dateTime''"
  shows "createDateQueryObject m (d\<lparr>Prefix := EB, Paths := [\<lparr>Path = path, Type = ty\<rparr>]\<rparr>)
     = Inr [(path @ ''.__to'', BDoc [(''$lt'', BTime (RangeLowIncl (Date d)))])]"
  using assms by (auto simp add: date_emit_simps simp del: buildBSON.simps)

text \<open>
  Claim C4: for a date parameter whose path has type \<open>date\<close> or \<open>dateTime\<close>, the single-path
  builder projects the selector of the prefix onto the path, and that selector is the
  prefix table: \<open>eq\<close> is \<open>__from \<ge> RangeLowIncl\<close> and \<open>__to \<le> RangeHighExcl\<close>; \<open>gt\<close> is
  \<open>__to > RangeHighExcl\<close>; \<open>lt\<close> is \<open>__from < RangeLowIncl\<close>; \<open>ge\<close> is the disjunction of
  \<open>__to \<ge> RangeHighExcl\<close> and \<open>__from \<ge> RangeLowIncl\<close>; \<open>le\<close> is the disjunction of
  \<open>__from \<le> RangeLowIncl\<close> and \<open>__to \<le> RangeHighExcl\<close>; \<open>sa\<close> is \<open>__from > RangeHighExcl\<close>;
  \<open>eb\<close> is \<open>__to < RangeLowIncl\<close>. A \<open>Timing\<close> path gets the same predicate on the path
  extended with \<open>.event\<close>. On a path without brackets the emitted documents are the ones
  listed, with the two bounds as keys below the path.
\<close>

theorem C4_date_prefix_table:
  assumes "CHR ''['' \<notin> set path" and "ty = ''date'' \<or> ty = ''dateTime''"
  shows
    "dateSingle d \<lparr>Path = anyPath, Type = ty\<rparr>
       = bindP (dateSelector d) (\<lambda>sel. buildBSON anyPath (BDoc sel))
     \<and> dateSingle d \<lparr>Path = anyPath, Type = ''Timing''\<rparr>
       = dateSingle d \<lparr>Path = anyPath @ ''.event'', Type = ty\<rparr>
     \<and> dateSelector (d\<lparr>Prefix := EQ\<rparr>) =
         Inr [(''__from'', BDoc [(''$gte'', BTime (RangeLowIncl (Date d)))]),
              (''__to'', BDoc [(''$lte'', BTime (RangeHighExcl (Date d)))])]
     \<and> dateSelector (d\<lparr>Prefix := GT\<rparr>) =
         Inr [(''__to'', BDoc [(''$gt'', BTime (RangeHighExcl (Date d)))])]
     \<and> dateSelector (d\<lparr>Prefix := LT\<rparr>) =
         Inr [(''__from'', BDoc [(''$lt'', BTime (RangeLowIncl (Date d)))])]
     \<and> dateSelector (d\<lparr>Prefix := GE\<rparr>) =
         Inr [(''$or'', BDocs
                [[(''__to'', BDoc [(''$gte'', BTime (RangeHighExcl (Date d)))])],
                 [(''__from'', BDoc [(''$gte'', BTime (RangeLowIncl (Date d)))])]])]
     \<and> dateSelector (d\<lparr>Prefix := LE\<rparr>) =
         Inr [(''$or'', BDocs
                [[(''__from'', BDoc [(''$lte'', BTime (RangeLowIncl (Date d)))])],
                 [(''__to'', BDoc [(''$lte'', BTime (RangeHighExcl (Date d)))])]])]
     \<and> dateSelector (d\<lparr>Prefix := SA\<rparr>) =
         Inr [(''__from'', BDoc [(''$gt'', BTime (RangeHighExcl (Date d)))])]
     \<and> dateSelector (d\<lparr>Prefix := EB\<rparr>) =
         Inr [(''__to'', BDoc [(''$lt'', BTime (RangeLowIncl (Date d)))])]
     \<and> createDateQueryObject m (d\<lparr>Prefix := EQ, Paths := [\<lparr>Path = path, Type = ty\<rparr>]\<rparr>)
       = Inr [(path @ ''.__from'', BDoc [(''$gte'', BTime (RangeLowIncl (Date d)))]),
              (path @ ''.__to'', BDoc [(''$lte'', BTime (RangeHighExcl (Date d)))])]
     \<and> createDateQueryObject m (d\<lparr>Prefix := GT, Paths := [\<lparr>Path = path, Type = ty\<rparr>]\<rparr>)
       = Inr [(path @ ''.__to'', BDoc [(''$gt'', BTime (RangeHighExcl (Date d)))])]
     \<and> createDateQueryObject m (d\<lparr>Prefix := LT, Paths := [\<lparr>Path = path, Type = ty\<rparr>]\<rparr>)
       = Inr [(path @ ''.__from'', BDoc [(''$lt'', BTime (RangeLowIncl (Date d)))])]
     \<and> createDateQueryObject m (d\<lparr>Prefix := GE, Paths := [\<lparr>Path = path, Type = ty\<rparr>]\<rparr>)
       = Inr [(''$or'', BDocs
           [[(path @ ''.__to'', BDoc [(''$gte'', BTime (RangeHighExcl (Date d)))])],
            [(path @ ''.__from'', BDoc [(''$gte'', BTime (RangeLowIncl (Date d)))])]])]
     \<and> createDateQueryObject m (d\<lparr>Prefix := LE, Paths := [\<lparr>Path = path, Type = ty\<rparr>]\<rparr>)
       = Inr [(''$or'', BDocs
           [[(path @ ''.__from'', BDoc [(''$lte'', BTime (RangeLowIncl (Date d)))])],
            [(path @ ''.__to'', BDoc [(''$lte'', BTime (RangeHighExcl (Date d)))])]])]
     \<and> createDateQueryObject m (d\<lparr>Prefix := SA, Paths := [\<lparr>Path = path, Type = ty\<rparr>]\<rparr>)
       = Inr [(path @ ''.__from'', BDoc [(''$gt'', BTime (RangeHighExcl (Date d)))])]
     \<and> createDateQueryObject m (d\<lparr>Prefix := EB, Paths := [\<lparr>Path = path, Type = ty\<rparr>]\<rparr>)
       = Inr [(path @ ''.__to'', BDoc [(''$lt'', BTime (RangeLowIncl (Date d)))])]"
  using assms(2) dateSingle_date [of "\<lparr>Path = anyPath, Type = ty\<rparr>" d]
    dateSingle_timing [of ty d anyPath]
    dateSelector_table [of d]
    date_emit_eq [OF assms] date_emit_gt [OF assms] date_emit_lt [OF assms]
    date_emit_ge [OF assms] date_emit_le [OF assms] date_emit_sa [OF assms]
    date_emit_eb [OF assms]
  by simp

theorem C4_date_prefix_table_witness:
  "CHR ''['' \<notin> set ''birthDate''
   \<and> createDateQueryObject
         \<lparr>countTotalResults = True, enableCISearches = True,
          tokenParametersCaseSensitive = False, readonly = False\<rparr>
         \<lparr>Resource = ''Patient'', Name = ''birthdate'', ParamType = ''date'',
          Paths = [\<lparr>Path = ''birthDate'', Type = ''date''\<rparr>], Targets = [],
          Prefix = EQ, Modifier = '''',
          Date = \<lparr>RangeLowIncl = 0, RangeHighExcl = 31536000\<rparr>\<rparr>
       = Inr [(''birthDate.__from'', BDoc [(''$gte'', BTime 0)]),
              (''birthDate.__to'', BDoc [(''$lte'', BTime 31536000)])]
   \<and> createDateQueryObject
         \<lparr>countTotalResults = True, enableCISearches = True,
          tokenParametersCaseSensitive = False, readonly = False\<rparr>
         \<lparr>Resource = ''Patient'', Name = ''birthdate'', ParamType = ''date'',
          Paths = [\<lparr>Path = ''birthDate'', Type = ''date''\<rparr>], Targets = [],
          Prefix = GE, Modifier = '''',
          Date = \<lparr>RangeLowIncl = 0, RangeHighExcl = 31536000\<rparr>\<rparr>
       = Inr [(''$or'', BDocs
               [[(''birthDate.__to'', BDoc [(''$gte'', BTime 31536000)])],
                [(''birthDate.__from'', BDoc [(''$gte'', BTime 0)])]])]"
proof -
  let ?m = "\<lparr>countTotalResults = True, enableCISearches = True,
             tokenParametersCaseSensitive = False, readonly = False\<rparr>"
  let ?d = "\<lparr>Resource = ''Patient'', Name = ''birthdate'', ParamType = ''date'',
             Paths = [], Targets = [], Prefix = GT, Modifier = '''',
             Date = \<lparr>RangeLowIncl = 0, RangeHighExcl = 31536000\<rparr>\<rparr>"
  have nb: "CHR ''['' \<notin> set ''birthDate''" by simp
  have ty: "''date'' = ''date'' \<or> ''date'' = ''dateTime''" by simp
  from C4_date_prefix_table [OF nb ty, of ?d "''timing''" ?m] nb
  show ?thesis by (simp del: buildBSON.simps)
qed

subsection \<open>Token parameters\<close>










subsection \<open>String parameters\<close>

lemma stringSingle_default:
  "Type p \<noteq> ''HumanName'' \<Longrightarrow> Type p \<noteq> ''Address'' \<Longrightarrow> Name s \<noteq> ''_id'' \<Longrightarrow>
   stringSingle m s p = buildBSON (Path p) (ci m (String s))"
  by (simp add: stringSingle_def del: buildBSON.simps)

lemma ci_is_anchored_at_both_ends:
  "enableCISearches m \<Longrightarrow> ci m s = BRegex (''^'' @ QuoteMeta s @ ''$'') ''i''"
  by (simp add: ci_def)

text \<open>
  Claim C7 states that a string parameter is matched by a case-insensitive starts-with
  match, that a \<open>HumanName\<close> path expands to that match over \<open>text\<close>, \<open>family\<close> and
  \<open>given\<close>, and that \<open>_id\<close> is matched exactly without a regular expression. The code
  evaluated on the parameter \<open>family=Smi\<close> with a path of type \<open>string\<close> emits the pattern
  \<open>^Smi$\<close>, anchored at both ends, which is a case-insensitive match of the whole value;
  the \<open>HumanName\<close> branch of the same switch emits the starts-with pattern \<open>^Smi\<close>, and
  \<open>_id\<close> is bound to the plain string.
\<close>

theorem C7_plain_string_is_whole_value_match:
  "createStringQueryObject searcherCI
      (stringExample ''family'' [\<lparr>Path = ''[]name.family'', Type = ''string''\<rparr>] ''Smi'')
     = Inr [(''name.family'', BRegex ''^Smi$'' ''i'')]
   \<and> createStringQueryObject searcherCI
      (stringExample ''name'' [\<lparr>Path = ''[]name'', Type = ''HumanName''\<rparr>] ''Smi'')
     = Inr [(''$or'', BDocs
             [[(''name.text'', BRegex ''^Smi'' ''i'')],
              [(''name.family'', BRegex ''^Smi'' ''i'')],
              [(''name.given'', BRegex ''^Smi'' ''i'')]])]
   \<and> createStringQueryObject searcherCI
      (stringExample ''_id'' [\<lparr>Path = ''_id'', Type = ''string''\<rparr>] ''Smi'')
     = Inr [(''_id'', BString ''Smi'')]"
  by code_simp

subsection \<open>Unsupported searches\<close>

lemma unsupported_501: "signalsUnsupportedSearch (unsupported c d)"
  by (simp add: signalsUnsupportedSearch_def unsupported_def createUnsupportedSearchError_def
      StatusNotImplemented_def CreateOpOutcome_def)

lemma orPaths_first_error: "objFunc p = Inl e \<Longrightarrow> orPaths objFunc (p # ps) = Inl e"
  by (simp add: orPaths_def)

lemma orPathsLoop_error:
  "\<exists>p\<in>set ps. isl (objFunc p) \<Longrightarrow> isl (orPathsLoop objFunc ps acc)"
proof (induction ps arbitrary: acc)
  case Nil
  then show ?case by simp
next
  case (Cons p ps)
  show ?case
  proof (cases "objFunc p")
    case (Inl e)
    then show ?thesis by simp
  next
    case (Inr r)
    with Cons.prems have "\<exists>p\<in>set ps. isl (objFunc p)" by auto
    then have "\<And>acc. isl (orPathsLoop objFunc ps acc)" by (rule Cons.IH)
    with Inr show ?thesis
      by (auto split: option.splits bson.splits)
  qed
qed

lemma orPaths_error: "\<exists>p\<in>set ps. isl (objFunc p) \<Longrightarrow> isl (orPaths objFunc ps)"
  using orPathsLoop_error [of ps objFunc "[]"]
  by (auto simp: orPaths_def split: sum.splits)

lemma guard_cases:
  "panicOnUnsupportedFeatures dictionary p = Inr ()
   \<or> (\<exists>c d. panicOnUnsupportedFeatures dictionary p = unsupported c d)"
  by (auto simp: panicOnUnsupportedFeatures_def Let_def)

lemma bindP_unsupported: "bindP (unsupported c d) f = unsupported c d"
  by (simp add: bindP_def unsupported_def)

lemma guarded_501:
  assumes "signalsUnsupportedSearch r"
  shows "signalsUnsupportedSearch (bindP (panicOnUnsupportedFeatures dictionary p) (\<lambda>_. r))"
proof -
  consider "panicOnUnsupportedFeatures dictionary p = Inr ()"
    | c d where "panicOnUnsupportedFeatures dictionary p = unsupported c d"
    using guard_cases [of dictionary p] by blast
  then show ?thesis
  proof cases
    case 1
    with assms show ?thesis by (simp add: bindP_def)
  next
    case 2
    then show ?thesis by (simp add: bindP_unsupported unsupported_501)
  qed
qed

lemma composite_builder_unsupported: "signalsUnsupportedSearch (createCompositeQueryObject m c)"
  by (simp add: createCompositeQueryObject_def unsupported_501)

lemma composite_501: "signalsUnsupportedSearch (createParamObject dictionary m (CompositeP c))"
  by (simp add: guarded_501 createCompositeQueryObject_def unsupported_501)

lemma numberSingle_decimal:
  "Type p = ''decimal'' \<Longrightarrow> numberSingle n p =
     unsupported ''MSG_PARAM_INVALID''
       (''Parameter '' @ quoted (Name n) @ '' (decimal type) is not yet supported'')"
  by (simp add: numberSingle_def)

lemma numberSingle_decimal_unsupported:
  "signalsUnsupportedSearch (numberSingle n \<lparr>Path = path, Type = ''decimal''\<rparr>)"
  by (simp add: numberSingle_decimal unsupported_501)

lemma number_first_501:
  "signalsUnsupportedSearch (createParamObject dictionary m
            (NumberP (n\<lparr>Paths := \<lparr>Path = path, Type = ''decimal''\<rparr> # ps\<rparr>)))"
proof -
  let ?n = "n\<lparr>Paths := \<lparr>Path = path, Type = ''decimal''\<rparr> # ps\<rparr>"
  have "signalsUnsupportedSearch (createNumberQueryObject m ?n)"
    using unsupported_501 [of "''MSG_PARAM_INVALID''"]
    by (simp add: createNumberQueryObject_def orPaths_first_error numberSingle_decimal
        unsupported_def)
  then show ?thesis by (simp add: guarded_501)
qed

lemma number_any_decimal:
  assumes "\<exists>p\<in>set (Paths n). Type p = ''decimal''"
  shows "isl (createParamObject dictionary m (NumberP n))"
proof -
  from assms obtain p where p: "p \<in> set (Paths n)" "Type p = ''decimal''" by blast
  have "isl (numberSingle n p)"
    using p(2) by (simp add: numberSingle_decimal unsupported_def)
  with p(1) have "\<exists>p\<in>set (Paths n). isl (numberSingle n p)" by blast
  then have "isl (createNumberQueryObject m n)"
    unfolding createNumberQueryObject_def by (rule orPaths_error)
  then show ?thesis
    using guard_cases [of dictionary "NumberP n"]
    by (auto simp: bindP_def unsupported_def)
qed

lemma quantitySingle_no_system:
  "QSystem q = '''' \<Longrightarrow> \<exists>c d. quantitySingle m q p = unsupported c d"
  by (cases "Prefix q") (auto simp: quantitySingle_def bindP_def Let_def unsupported_def)

lemma quantitySingle_unsupported:
  "signalsUnsupportedSearch (quantitySingle m (q\<lparr>QSystem := ''''\<rparr>) p)"
  using quantitySingle_no_system [of "q\<lparr>QSystem := ''''\<rparr>" m p] unsupported_501
  by auto

lemma quantity_501:
  "signalsUnsupportedSearch (createParamObject dictionary m (QuantityP (q\<lparr>QSystem := '''', Paths := p # ps\<rparr>)))"
proof -
  let ?q = "q\<lparr>QSystem := '''', Paths := p # ps\<rparr>"
  obtain c d where "quantitySingle m ?q p = unsupported c d"
    using quantitySingle_no_system [of ?q m p] by auto
  then have "signalsUnsupportedSearch (createQuantityQueryObject m ?q)"
    using unsupported_501 [of c d]
    by (simp add: createQuantityQueryObject_def orPaths_first_error unsupported_def)
  then show ?thesis by (simp add: guarded_501)
qed

text \<open>
  Claim C8: compilation signals an unsupported search (HTTP status 501) for every composite
  parameter, for every number parameter whose path has type \<open>decimal\<close>, and for every
  quantity parameter whose value carries no system; no predicate document is produced. The
  parameters have one or more paths; the number and the quantity builder reach the signal
  at the first path. For a number parameter with a \<open>decimal\<close> path at any position the
  compilation ends in a panic.
\<close>

theorem C8_unsupported_searches:
  "signalsUnsupportedSearch (createCompositeQueryObject m c)
   \<and> signalsUnsupportedSearch (createParamObject dictionary m (CompositeP c))
   \<and> signalsUnsupportedSearch (numberSingle n \<lparr>Path = path, Type = ''decimal''\<rparr>)
   \<and> signalsUnsupportedSearch
        (createParamObject dictionary m
           (NumberP (n\<lparr>Paths := \<lparr>Path = path, Type = ''decimal''\<rparr> # ps\<rparr>)))
   \<and> ((\<exists>p\<in>set (Paths n). Type p = ''decimal'') \<longrightarrow>
        isl (createParamObject dictionary m (NumberP n)))
   \<and> signalsUnsupportedSearch (quantitySingle m (q\<lparr>QSystem := ''''\<rparr>) p)
   \<and> signalsUnsupportedSearch
        (createParamObject dictionary m (QuantityP (q\<lparr>QSystem := '''', Paths := p # ps\<rparr>)))"
  by (simp add: composite_builder_unsupported composite_501
      numberSingle_decimal_unsupported number_first_501
      number_any_decimal quantitySingle_unsupported quantity_501
      del: createParamObject.simps)

theorem C8_unsupported_searches_witness:
  "(\<exists>p\<in>set (Paths (numberExample [\<lparr>Path = ''probabilityDecimal'', Type = ''decimal''\<rparr>] EQ
                       \<lparr>NumRangeLowIncl = 1, NumRangeHighExcl = 2, NumValue = 3 / 2\<rparr>)).
       Type p = ''decimal'')
   \<and> isl (createParamObject [] searcherCI
          (NumberP (numberExample [\<lparr>Path = ''probabilityDecimal'', Type = ''decimal''\<rparr>] EQ
                      \<lparr>NumRangeLowIncl = 1, NumRangeHighExcl = 2, NumValue = 3 / 2\<rparr>)))"
proof -
  let ?n = "numberExample [\<lparr>Path = ''probabilityDecimal'', Type = ''decimal''\<rparr>] EQ
              \<lparr>NumRangeLowIncl = 1, NumRangeHighExcl = 2, NumValue = 3 / 2\<rparr>"
  have h: "\<exists>p\<in>set (Paths ?n). Type p = ''decimal''"
    by (simp add: numberExample_def infoExample_def SearchParamInfo.extend_def)
  with C8_unsupported_searches [of searcherCI _ "[]" ?n] show ?thesis by blast
qed

subsection \<open>Searches for the count only\<close>

lemma find_summary_count:
  assumes "Summary opts = ''count''"
  shows "find drv bq opts doCount =
    (let c = PluralizeLowerResourceName drv (BResource bq);
         flt = (case BQuery bq of Some d \<Rightarrow> BDoc d | None \<Rightarrow> BNil)
     in ([CountDocuments c flt],
         case countDocuments drv c flt of
           Inl e \<Rightarrow> Inl (Wrapped e ''search count operation failed'')
         | Inr intTotal \<Rightarrow> Inr (None, uint32 intTotal)))"
  using assms by (simp add: find_def Let_def split: sum.splits)

lemma aggregate_summary_count:
  assumes "Summary opts = ''count''"
  shows "aggregate drv bq opts doCount =
    (let counted = aggregateTotal drv (PluralizeLowerResourceName drv (BResource bq)) bq
     in (fst counted, case snd counted of Inl e \<Rightarrow> Inl e | Inr tot \<Rightarrow> Inr (None, tot)))"
  using assms by (simp add: aggregate_def Let_def split: sum.splits)

lemma aggregateTotal_ops:
  "\<exists>op. fst (aggregateTotal drv c bq) = [op] \<and> isCountQuery op"
  by (auto simp: aggregateTotal_def Let_def split: sum.splits)

lemma execute_summary_count_ops:
  assumes "Summary opts = ''count''"
  shows "\<exists>op. fst (execute drv bq opts doCount) = [op] \<and> isCountQuery op"
proof (cases "usesPipeline bq")
  case True
  with assms aggregateTotal_ops [of drv "PluralizeLowerResourceName drv (BResource bq)" bq]
  show ?thesis by (simp add: execute_def aggregate_summary_count Let_def)
next
  case False
  with assms show ?thesis by (simp add: execute_def find_summary_count Let_def)
qed

lemma execute_summary_count_any:
  assumes "Summary opts = ''count''"
  shows "execute drv bq opts doCount = execute drv bq opts True"
  using assms by (simp add: execute_def find_summary_count aggregate_summary_count)

lemma execute_summary_count_cursor:
  assumes "Summary opts = ''count''" "execute drv bq opts doCount = (ops, Inr (cursor, tot))"
  shows "cursor = None"
  using assms
  by (auto simp: execute_def find_summary_count aggregate_summary_count Let_def
      split: if_splits sum.splits)

lemma execute_no_insert: "\<forall>op\<in>set (fst (execute drv bq opts doCount)). \<not> isCacheInsert op"
  by (auto simp: execute_def find_def aggregate_def aggregateTotal_def Let_def
      split: sum.splits if_splits list.splits Row.splits option.splits)

lemma cacheLookup_no_insert: "\<forall>op\<in>set (fst (cacheLookup m drv query)). \<not> isCacheInsert op"
  by (simp add: cacheLookup_def Let_def)

lemma Search_summary_count_no_insert:
  assumes "Summary opts = ''count''"
  shows "\<forall>op\<in>set (fst (Search m drv query opts compiled)). \<not> isCacheInsert op"
proof -
  obtain ops1 h cached where cl: "cacheLookup m drv query = (ops1, h, cached)"
    by (cases "cacheLookup m drv query") auto
  with cacheLookup_no_insert [of m drv query] have o1: "\<forall>op\<in>set ops1. \<not> isCacheInsert op" by simp
  show ?thesis
  proof (cases compiled)
    case (Inl p)
    with cl o1 show ?thesis by (simp add: Search_def Let_def)
  next
    case (Inr bq)
    obtain ops2 ran where ex: "execute drv bq opts (cached = None \<and> countTotalResults m) = (ops2, ran)"
      by (cases "execute drv bq opts (cached = None \<and> countTotalResults m)") auto
    with execute_no_insert [of drv bq opts "cached = None \<and> countTotalResults m"]
    have o2: "\<forall>op\<in>set ops2. \<not> isCacheInsert op" by simp
    from cl Inr ex o1 o2 assms show ?thesis
      by (auto simp: Search_def Let_def split: sum.splits prod.splits)
  qed
qed

lemma Search_early_return:
  assumes "readonly m" "countTotalResults m" "cacheFindOne drv (fingerprint drv query) = Inr 0"
  shows "Search m drv query opts compiled
         = ([CacheFindOne (fingerprint drv query)], Inr (Inr ([], 0)))"
  using assms by (simp add: Search_def cacheLookup_def Let_def)

lemma Search_summary_count_result:
  assumes "Summary opts = ''count''"
    and "\<not> (readonly m \<and> countTotalResults m \<and> cacheFindOne drv (fingerprint drv query) = Inr 0)"
    and "execute drv bq opts doCount = (ops, Inr (cursor, computedTotal))"
  shows "Search m drv query opts (Inr bq)
         = (fst (cacheLookup m drv query) @ ops, Inr (Inr ([], computedTotal)))"
proof -
  have ex: "\<And>dc. execute drv bq opts dc = (ops, Inr (cursor, computedTotal))"
    using execute_summary_count_any [OF assms(1)] assms(3) by metis
  show ?thesis
    using assms(1,2) ex
    by (auto simp: Search_def cacheLookup_def Let_def split: sum.splits)
qed

text \<open>
  Claim C10, as stated: for every query with \<open>_summary=count\<close> the total is computed. On a
  read-only searcher with counts whose cache holds the total 0 for the query, \<open>Search\<close>
  returns after the cache lookup: no count query is issued.
\<close>

theorem C10_cached_zero_skips_the_count:
  "Search searcherReadOnly (countingDriver (Some 0) 0) allPatients summaryCount
      (Inr allPatientsCompiled)
     = ([CacheFindOne ''md5:Patient?''], Inr (Inr ([], 0)))"
  by code_simp

text \<open>
  Claim C10, amended: for every query with \<open>_summary=count\<close>, unless the searcher is
  read-only with counts and the count cache holds the total 0 for the query (then \<open>Search\<close>
  returns no resources and the total 0 right after the lookup): the executing step issues
  exactly one count query, whatever the value of \<open>doCount\<close> (a count of documents in find
  mode, the count branch in aggregate mode), and when it succeeds \<open>Search\<close> returns no
  resources, the computed total and no error. In every case a search with
  \<open>_summary=count\<close> issues no insertion into the count cache.
\<close>

theorem C10_summary_count:
  assumes "Summary opts = ''count''"
  shows
    "execute drv bq opts doCount = execute drv bq opts True
     \<and> (\<exists>op. fst (execute drv bq opts doCount) = [op] \<and> isCountQuery op)
     \<and> (\<not> usesPipeline bq \<longrightarrow>
          fst (execute drv bq opts doCount)
            = [CountDocuments (PluralizeLowerResourceName drv (BResource bq))
                 (case BQuery bq of Some d \<Rightarrow> BDoc d | None \<Rightarrow> BNil)])
     \<and> (usesPipeline bq \<longrightarrow>
          fst (execute drv bq opts doCount)
            = fst (aggregateTotal drv (PluralizeLowerResourceName drv (BResource bq)) bq))
     \<and> (\<forall>op\<in>set (fst (Search m drv query opts compiled)). \<not> isCacheInsert op)
     \<and> (readonly m \<and> countTotalResults m \<and> cacheFindOne drv (fingerprint drv query) = Inr 0
          \<longrightarrow> Search m drv query opts compiled
                = ([CacheFindOne (fingerprint drv query)], Inr (Inr ([], 0))))
     \<and> (\<forall>ops cursor computedTotal.
          \<not> (readonly m \<and> countTotalResults m
              \<and> cacheFindOne drv (fingerprint drv query) = Inr 0)
          \<and> execute drv bq opts doCount = (ops, Inr (cursor, computedTotal))
          \<longrightarrow> Search m drv query opts (Inr bq)
                = (fst (cacheLookup m drv query) @ ops, Inr (Inr ([], computedTotal))))"
proof -
  have 1: "execute drv bq opts doCount = execute drv bq opts True"
    using assms by (rule execute_summary_count_any)
  have 2: "\<exists>op. fst (execute drv bq opts doCount) = [op] \<and> isCountQuery op"
    using assms by (rule execute_summary_count_ops)
  have 3: "\<not> usesPipeline bq \<longrightarrow>
          fst (execute drv bq opts doCount)
            = [CountDocuments (PluralizeLowerResourceName drv (BResource bq))
                 (case BQuery bq of Some d \<Rightarrow> BDoc d | None \<Rightarrow> BNil)]"
    using assms by (simp add: execute_def find_summary_count Let_def)
  have 4: "usesPipeline bq \<longrightarrow>
          fst (execute drv bq opts doCount)
            = fst (aggregateTotal drv (PluralizeLowerResourceName drv (BResource bq)) bq)"
    using assms by (simp add: execute_def aggregate_summary_count Let_def)
  have 5: "\<forall>op\<in>set (fst (Search m drv query opts compiled)). \<not> isCacheInsert op"
    using assms by (rule Search_summary_count_no_insert)
  have 6: "readonly m \<and> countTotalResults m \<and> cacheFindOne drv (fingerprint drv query) = Inr 0
          \<longrightarrow> Search m drv query opts compiled
                = ([CacheFindOne (fingerprint drv query)], Inr (Inr ([], 0)))"
    using Search_early_return by blast
  have 7: "\<forall>ops cursor computedTotal.
          \<not> (readonly m \<and> countTotalResults m
              \<and> cacheFindOne drv (fingerprint drv query) = Inr 0)
          \<and> execute drv bq opts doCount = (ops, Inr (cursor, computedTotal))
          \<longrightarrow> Search m drv query opts (Inr bq)
                = (fst (cacheLookup m drv query) @ ops, Inr (Inr ([], computedTotal)))"
    using Search_summary_count_result [OF assms] by blast
  from 1 2 3 4 5 6 7 show ?thesis by blast
qed

theorem C10_summary_count_witness:
  "Summary summaryCount = ''count''
   \<and> Search searcherReadOnly (countingDriver None 7) allPatients summaryCount
        (Inr allPatientsCompiled)
      = ([CacheFindOne ''md5:Patient?'', CountDocuments ''Patients'' (BDoc [])],
         Inr (Inr ([], 7)))
   \<and> Search (searcherReadOnly\<lparr>countTotalResults := False\<rparr>) (countingDriver None 7) allPatients
        summaryCount (Inr allPatientsCompiled)
      = ([CountDocuments ''Patients'' (BDoc [])], Inr (Inr ([], 7)))"
proof -
  let ?drv = "countingDriver None 7"
  let ?m2 = "searcherReadOnly\<lparr>countTotalResults := False\<rparr>"
  have s: "Summary summaryCount = ''count''" by (simp add: summaryCount_def)
  have ex: "execute ?drv allPatientsCompiled summaryCount False
            = ([CountDocuments ''Patients'' (BDoc [])], Inr (None, 7))"
    by code_simp
  have miss: "\<not> (readonly searcherReadOnly \<and> countTotalResults searcherReadOnly
                \<and> cacheFindOne ?drv (fingerprint ?drv allPatients) = Inr 0)"
    by (simp add: countingDriver_def)
  have off: "\<not> (readonly ?m2 \<and> countTotalResults ?m2
                \<and> cacheFindOne ?drv (fingerprint ?drv allPatients) = Inr 0)"
    by simp
  have l1: "fst (cacheLookup searcherReadOnly ?drv allPatients) = [CacheFindOne ''md5:Patient?'']"
    by code_simp
  have l2: "fst (cacheLookup ?m2 ?drv allPatients) = []"
    by code_simp
  note t1 = C10_summary_count [OF s, of ?drv allPatientsCompiled False searcherReadOnly allPatients]
  note t2 = C10_summary_count [OF s, of ?drv allPatientsCompiled False ?m2 allPatients]
  from t1 miss ex l1 have a: "Search searcherReadOnly ?drv allPatients summaryCount
        (Inr allPatientsCompiled)
      = ([CacheFindOne ''md5:Patient?'', CountDocuments ''Patients'' (BDoc [])],
         Inr (Inr ([], 7)))"
    by (metis append_Cons append_Nil)
  from t2 off ex l2 have b: "Search ?m2 ?drv allPatients summaryCount (Inr allPatientsCompiled)
      = ([CountDocuments ''Patients'' (BDoc [])], Inr (Inr ([], 7)))"
    by (metis append_Nil)
  from s a b show ?thesis by blast
qed

end
